theory Spec2Isabelle
  imports Main "HOL-Library.Word" "HOL-Library.Sublist" "HOL-Library.AList"
begin

section \<open>Errors and formatting\<close>

text \<open>
  Go's \<^verbatim>\<open>error\<close> values, by the way they are built: the typed errors of the errors
  package of onos-lib-go, of which \<^verbatim>\<open>errors.NewInvalid(msg)\<close> is the Invalid error (the
  spec's InvalidArgument) and \<^verbatim>\<open>errors.NewNotFound(msg)\<close> the NotFound error;
  \<^verbatim>\<open>fmt.Errorf(format, ...)\<close>, an untyped error that carries only its text; and an error
  handed back by a collaborator (the client factory, the transport, a parser).
  \<open>Error\<close> is the method \<^verbatim>\<open>Error()\<close>, which is what the verb \<^verbatim>\<open>%v\<close> prints;
  \<open>IsInvalid\<close> and \<open>IsNotFound\<close> are the tests \<^verbatim>\<open>errors.IsInvalid\<close> and
  \<^verbatim>\<open>errors.IsNotFound\<close> of that package, by which a caller tells the type of an error.
\<close>

datatype error = NewInvalid string | NewNotFound string | Errorf string | Failure string

fun Error :: "error \<Rightarrow> string" where
  "Error (NewInvalid m) = m"
| "Error (NewNotFound m) = m"
| "Error (Errorf m) = m"
| "Error (Failure m) = m"

fun IsInvalid :: "error \<Rightarrow> bool" where
  "IsInvalid (NewInvalid m) = True"
| "IsInvalid (NewNotFound m) = False"
| "IsInvalid (Errorf m) = False"
| "IsInvalid (Failure m) = False"

fun IsNotFound :: "error \<Rightarrow> bool" where
  "IsNotFound (NewInvalid m) = False"
| "IsNotFound (NewNotFound m) = True"
| "IsNotFound (Errorf m) = False"
| "IsNotFound (Failure m) = False"

text \<open>
  A call that may panic either returns its Go results or panics (a method call on a nil
  interface value).
\<close>

datatype 'a outcome = Return 'a | Panic

section \<open>The device descriptor and the destination\<close>

text \<open>
  \<^verbatim>\<open>topodevice.Device\<close>, with the fields \<^verbatim>\<open>createDestination\<close> reads. The Go
  field \<^verbatim>\<open>Timeout\<close> is a pointer, so it may be absent; a duration is a 64-bit count of
  nanoseconds.
\<close>

record DeviceCredentials =
  User :: string
  Password :: string

record TlsConfig =
  CaCert :: string
  Cert :: string
  Key :: string
  Plain :: bool
  Insecure :: bool

record Device =
  ID :: string
  Address :: string
  Target :: string
  Version :: string
  Timeout :: "64 word option"
  Credentials :: DeviceCredentials
  TLS :: TlsConfig

text \<open>
  The types of the client library: \<^verbatim>\<open>tls.Certificate\<close> (its zero value is
  \<open>Certificate [] []\<close>), \<^verbatim>\<open>x509.CertPool\<close> (the certificates appended to a new pool),
  \<^verbatim>\<open>tls.Config\<close>, \<^verbatim>\<open>client.Credentials\<close> and \<^verbatim>\<open>client.Destination\<close>. The
  fields of the destination carry the prefix \<open>d\<close>, since the device descriptor has fields
  of the same names. \<^verbatim>\<open>TLS\<close>, \<^verbatim>\<open>RootCAs\<close> and \<^verbatim>\<open>Credentials\<close> are pointers in Go:
  \<open>None\<close> is nil.
\<close>

datatype Certificate = Certificate "string list" string

type_synonym CertPool = "string list"

record Config =
  InsecureSkipVerify :: bool
  RootCAs :: "CertPool option"
  Certificates :: "Certificate list"

record ClientCredentials =
  dUsername :: string
  dPassword :: string

record Destination =
  dAddrs :: "string list"
  dTarget :: string
  dTimeout :: "64 word"
  dTLS :: "Config option"
  dCredentials :: "ClientCredentials option"

type_synonym VersionedID = string

section \<open>Protocol messages and subscription requests\<close>

text \<open>
  The unary gNMI messages (\<^verbatim>\<open>CapabilityRequest\<close>, \<^verbatim>\<open>GetRequest\<close>, \<^verbatim>\<open>SetRequest\<close> and
  their responses) are opaque to this package: it parses them from text, prints them and
  hands them to the client. \<open>Proto m\<close> is such a message; \<open>message\<close> names the three
  request types the text parser is asked for.
\<close>

datatype proto = Proto string

datatype message = CapabilityRequest | GetRequest | SetRequest

text \<open>
  The structured subscribe request of gNMI, with the fields \<^verbatim>\<open>NewSubscribeRequest\<close>
  sets: \<^verbatim>\<open>gnmi.Path\<close> (prefix \<open>p\<close>), \<^verbatim>\<open>gnmi.Subscription\<close> (prefix \<open>s\<close>),
  \<^verbatim>\<open>gnmi.SubscriptionList\<close> (prefix \<open>l\<close>) and the two enumerations with their
  \<^verbatim>\<open>String()\<close> methods. The subscriptions are a slice of pointers: \<open>None\<close> is nil.
\<close>

datatype PathElem = PathElem string "(string \<times> string) list"

record Path =
  pOrigin :: string
  pElem :: "PathElem list"
  pTarget :: string

datatype SubscriptionList_Mode = SubscriptionList_STREAM | SubscriptionList_ONCE | SubscriptionList_POLL

datatype SubscriptionMode =
  SubscriptionMode_TARGET_DEFINED | SubscriptionMode_ON_CHANGE | SubscriptionMode_SAMPLE

fun SubscriptionList_Mode_String :: "SubscriptionList_Mode \<Rightarrow> string" where
  "SubscriptionList_Mode_String SubscriptionList_STREAM = ''STREAM''"
| "SubscriptionList_Mode_String SubscriptionList_ONCE = ''ONCE''"
| "SubscriptionList_Mode_String SubscriptionList_POLL = ''POLL''"

fun SubscriptionMode_String :: "SubscriptionMode \<Rightarrow> string" where
  "SubscriptionMode_String SubscriptionMode_TARGET_DEFINED = ''TARGET_DEFINED''"
| "SubscriptionMode_String SubscriptionMode_ON_CHANGE = ''ON_CHANGE''"
| "SubscriptionMode_String SubscriptionMode_SAMPLE = ''SAMPLE''"

record Subscription =
  sPath :: Path
  sMode :: SubscriptionMode
  sSampleInterval :: "64 word"
  sHeartbeatInterval :: "64 word"

record SubscriptionList =
  lPrefix :: Path
  lSubscription :: "Subscription option list"
  lMode :: SubscriptionList_Mode
  lUpdatesOnly :: bool

datatype SubscribeRequest = SubscribeRequest_Subscribe SubscriptionList

text \<open>
  \<^verbatim>\<open>SubscribeOptions\<close>, with the fields \<^verbatim>\<open>NewSubscribeRequest\<close> reads (the struct is
  declared in another file of the package).
\<close>

record SubscribeOptions =
  UpdatesOnly :: bool
  Prefix :: string
  Mode :: string
  StreamMode :: string
  SampleInterval :: "64 word"
  HeartbeatInterval :: "64 word"
  Paths :: "string list list"
  Origin :: string

text \<open>
  \<^verbatim>\<open>client.Query\<close>: the connection fields \<^verbatim>\<open>Subscribe\<close> copies from the destination,
  the handler, and \<open>qSubscribe\<close> for what \<^verbatim>\<open>client.NewQuery\<close> takes from the request.
  Contexts and handlers are opaque handles.
\<close>

type_synonym Context = nat

type_synonym ProtoHandler = nat

record Query =
  qAddrs :: "string list"
  qTimeout :: "64 word"
  qTarget :: string
  qCredentials :: "ClientCredentials option"
  qTLS :: "Config option"
  qProtoHandler :: "ProtoHandler option"
  qSubscribe :: "SubscribeRequest option"

section \<open>Collaborators\<close>

text \<open>
  What the package calls and does not define in the files at hand, taken as parameters:
  the file system (\<^verbatim>\<open>ioutil.ReadFile\<close>), the PEM and key pair parsers of
  \<^verbatim>\<open>crypto/x509\<close> and \<^verbatim>\<open>crypto/tls\<close> (a Go call that returns a value and an error
  is a pair here, as the code uses the value also when the error is set), the certificates
  embedded by onos-lib-go (\<^verbatim>\<open>certs.DefaultClientCrt\<close>, \<^verbatim>\<open>certs.DefaultClientKey\<close>,
  \<^verbatim>\<open>certs.OnfCaCrt\<close>), the key constructor \<^verbatim>\<open>devicetype.NewVersionedID\<close> of onos-api,
  \<^verbatim>\<open>proto.UnmarshalText\<close>, the \<^verbatim>\<open>String()\<close> method of a message, the verb \<^verbatim>\<open>%q\<close>
  of \<^verbatim>\<open>fmt\<close> (\<open>Quote\<close>), \<^verbatim>\<open>client.NewQuery\<close>, the upper-casing of a string that has a
  byte outside ASCII (\<open>MapToUpper\<close>, which is \<^verbatim>\<open>strings.Map(unicode.ToUpper, s)\<close>), and the
  path functions \<^verbatim>\<open>utils.SplitPath\<close> and \<^verbatim>\<open>utils.ParseGNMIElements\<close>; the latter
  returns a path or an error. A \<open>VersionedID\<close> is a Go string type (\<^verbatim>\<open>ConnectTarget\<close>
  returns \<^verbatim>\<open>""\<close> for it).
\<close>

record extern =
  ReadFile :: "string \<Rightarrow> string \<times> error option"
  AppendCertsFromPEM :: "string \<Rightarrow> string list"
  X509KeyPair :: "string \<Rightarrow> string \<Rightarrow> Certificate \<times> error option"
  LoadX509KeyPair :: "string \<Rightarrow> string \<Rightarrow> Certificate \<times> error option"
  DefaultClientCrt :: string
  DefaultClientKey :: string
  OnfCaCrt :: string
  NewVersionedID :: "string \<Rightarrow> string \<Rightarrow> VersionedID"
  UnmarshalText :: "message \<Rightarrow> string \<Rightarrow> proto \<times> error option"
  String :: "proto \<Rightarrow> string"
  Quote :: "string \<Rightarrow> string"
  NewQuery :: "SubscribeRequest \<Rightarrow> Query \<times> error option"
  MapToUpper :: "string \<Rightarrow> string"
  SplitPath :: "string \<Rightarrow> string list"
  ParseGNMIElements :: "string list \<Rightarrow> error + Path"

text \<open>
  The protocol clients are handles. \<open>factories\<close> holds the package variable
  \<^verbatim>\<open>GnmiClientFactory\<close> that opens the client of a target (a function the tests replace);
  \<open>network\<close> is what the methods of a client return, that is, the behaviour of the device
  behind it.
\<close>

datatype GnmiClient = GnmiClient nat

datatype BaseClient = BaseClient nat

record factories =
  GnmiClientFactory :: "Context \<Rightarrow> Destination \<Rightarrow> GnmiClient option \<times> error option"

record network =
  clientCapabilities :: "GnmiClient \<Rightarrow> Context \<Rightarrow> proto \<Rightarrow> proto option \<times> error option"
  clientGet :: "GnmiClient \<Rightarrow> Context \<Rightarrow> proto \<Rightarrow> proto option \<times> error option"
  clientSet :: "GnmiClient \<Rightarrow> Context \<Rightarrow> proto \<Rightarrow> proto option \<times> error option"
  clientClose :: "GnmiClient \<Rightarrow> error option"
  clientSubscribe :: "BaseClient \<Rightarrow> Context \<Rightarrow> Query \<Rightarrow> string \<Rightarrow> error option"

section \<open>The state of the package\<close>

text \<open>
  A \<^verbatim>\<open>Target\<close> holds a destination, a client (nil until a connect succeeds) and a
  context; its mutex is not modelled, each operation below being one atomic step. The
  registry \<^verbatim>\<open>targets\<close> maps a key to a pointer to a target, so the targets live in a
  heap and a pointer is an address of it. The Go map is the list of its entries, read with
  \<open>map_of\<close> and written with \<open>AList.update\<close>, which keeps one entry for a key; the order of
  the list is the order in which a \<^verbatim>\<open>range\<close> over the map yields the entries, which Go
  leaves open, so that a statement for every world is one for every order. \<open>calls\<close> is the
  list of the method calls made on protocol clients, oldest first, and \<open>baseClients\<close> the
  number of base clients constructed so far.
\<close>

record Target =
  dest :: Destination
  clt :: "GnmiClient option"
  ctx :: Context

type_synonym ref = nat

datatype call =
    CloseCall GnmiClient
  | CapabilitiesCall GnmiClient Context proto
  | GetCall GnmiClient Context proto
  | SetCall GnmiClient Context proto
  | SubscribeCall BaseClient Context Query string

record world =
  targets :: "(VersionedID \<times> ref) list"
  heap :: "ref \<Rightarrow> Target"
  calls :: "call list"
  baseClients :: nat

section \<open>The certificate and credential resolver\<close>

text \<open>
  \<^verbatim>\<open>setCertificate\<close>, \<^verbatim>\<open>getCertPool\<close> and \<^verbatim>\<open>getCertPoolDefault\<close>. Each logs an
  error of the library and goes on with the value it got; logging is the only effect left
  out of the model.
\<close>

definition setCertificate :: "extern \<Rightarrow> string \<Rightarrow> string \<Rightarrow> Certificate" where
  "setCertificate E pathCert pathKey = fst (LoadX509KeyPair E pathCert pathKey)"

definition getCertPool :: "extern \<Rightarrow> string \<Rightarrow> CertPool" where
  "getCertPool E CaPath = [] @ AppendCertsFromPEM E (fst (ReadFile E CaPath))"

definition getCertPoolDefault :: "extern \<Rightarrow> CertPool" where
  "getCertPoolDefault E = [] @ AppendCertsFromPEM E (OnfCaCrt E)"

text \<open>
  \<^verbatim>\<open>createDestination\<close>, statement by statement: \<open>d0\<close> is the destination after the
  address, target and timeout are set; \<open>c1\<close> is the TLS config after the insecure flag,
  \<open>c2\<close> after the root CAs; then the chain of four branches on the certificate and key
  paths and on the credentials.
\<close>

definition createDestination :: "extern \<Rightarrow> Device \<Rightarrow> Destination \<times> VersionedID" where
  "createDestination E device =
    (let d0 = \<lparr>dAddrs = [Address device], dTarget = Target device,
               dTimeout = (case Timeout device of None \<Rightarrow> 0 | Some t \<Rightarrow> t),
               dTLS = None, dCredentials = None\<rparr>;
         d =
           (if Plain (TLS device) then d0
            else
              let c0 = \<lparr>InsecureSkipVerify = False, RootCAs = None, Certificates = []\<rparr>;
                  c1 = (if Insecure (TLS device)
                        then \<lparr>InsecureSkipVerify = True, RootCAs = None, Certificates = []\<rparr>
                        else c0);
                  c2 = (if CaCert (TLS device) = []
                        then c1\<lparr>RootCAs := Some (getCertPoolDefault E)\<rparr>
                        else c1\<lparr>RootCAs := Some (getCertPool E (CaCert (TLS device)))\<rparr>)
              in
                if Cert (TLS device) = [] \<and> Key (TLS device) = [] then
                  d0\<lparr>dTLS := Some (c2\<lparr>Certificates :=
                    [fst (X509KeyPair E (DefaultClientCrt E) (DefaultClientKey E))]\<rparr>)\<rparr>
                else if Cert (TLS device) \<noteq> [] \<and> Key (TLS device) \<noteq> [] then
                  d0\<lparr>dTLS := Some (c2\<lparr>Certificates :=
                    [setCertificate E (Cert (TLS device)) (Key (TLS device))]\<rparr>)\<rparr>
                else if User (Credentials device) \<noteq> [] \<and> Password (Credentials device) \<noteq> [] then
                  d0\<lparr>dTLS := Some c2,
                     dCredentials := Some \<lparr>dUsername = User (Credentials device),
                                           dPassword = Password (Credentials device)\<rparr>\<rparr>
                else
                  d0\<lparr>dTLS := Some \<lparr>InsecureSkipVerify = True, RootCAs = None, Certificates = []\<rparr>\<rparr>)
     in (d, NewVersionedID E (ID device) (Version device)))"

section \<open>The connection registry\<close>

text \<open>
  The verb \<^verbatim>\<open>%v\<close> prints a slice of strings as its elements, separated by spaces, in
  square brackets.
\<close>

fun joinSpace :: "string list \<Rightarrow> string" where
  "joinSpace [] = []"
| "joinSpace [k] = k"
| "joinSpace (k # ks) = k @ '' '' @ joinSpace ks"

definition formatSlice :: "string list \<Rightarrow> string" where
  "formatSlice ks = ''['' @ joinSpace ks @ '']''"

text \<open>
  \<^verbatim>\<open>NewTargetItem\<close> and \<^verbatim>\<open>GetTarget\<close>. On a miss \<^verbatim>\<open>GetTarget\<close> ranges over the
  map and appends each key to the slice \<^verbatim>\<open>targetNames\<close>, which starts empty:
  \<open>rangeTargets\<close> is that loop.
\<close>

definition NewTargetItem :: "world \<Rightarrow> VersionedID \<Rightarrow> ref \<Rightarrow> world" where
  "NewTargetItem w deviceID target = w\<lparr>targets := AList.update deviceID target (targets w)\<rparr>"

fun rangeTargets :: "(VersionedID \<times> ref) list \<Rightarrow> VersionedID list \<Rightarrow> VersionedID list" where
  "rangeTargets [] targetNames = targetNames"
| "rangeTargets ((t, v) # entries) targetNames = rangeTargets entries (targetNames @ [t])"

definition GetTarget :: "world \<Rightarrow> VersionedID \<Rightarrow> (ref option \<times> error option) \<times> world" where
  "GetTarget w key =
    (case map_of (targets w) key of
       Some t \<Rightarrow> ((Some t, None), w)
     | None \<Rightarrow>
        ((None, Some (Errorf (''gNMI client for '' @ key @ '' does not exist. Known clients: ''
                              @ formatSlice (rangeTargets (targets w) [])))), w))"

text \<open>
  \<^verbatim>\<open>ConnectTarget\<close>, on the target at address \<open>target\<close>: the destination is resolved,
  the factory is called, and on its error the function returns at once. Otherwise the
  client the target holds, if any, is closed (the result of that \<^verbatim>\<open>Close\<close> is dropped),
  the three fields are assigned and the pointer is stored under the key.
\<close>

definition ConnectTarget ::
  "factories \<Rightarrow> extern \<Rightarrow> world \<Rightarrow> ref \<Rightarrow> Context \<Rightarrow> Device
     \<Rightarrow> (VersionedID \<times> error option) \<times> world" where
  "ConnectTarget F E w target ctx' device =
    (let (dest', key) = createDestination E device;
         (c, err) = GnmiClientFactory F ctx' dest'
     in case err of
          Some e \<Rightarrow> (([], Some (Errorf (''could not create a gNMI client: '' @ Error e))), w)
        | None \<Rightarrow>
           let w1 = (case clt (heap w target) of
                       None \<Rightarrow> w
                     | Some old \<Rightarrow> w\<lparr>calls := calls w @ [CloseCall old]\<rparr>);
               t = (heap w1 target)\<lparr>dest := dest', clt := c, ctx := ctx'\<rparr>;
               w2 = w1\<lparr>heap := (heap w1)(target := t)\<rparr>;
               w3 = w2\<lparr>targets := AList.update key target (targets w2)\<rparr>
           in ((key, None), w3))"

section \<open>The target session\<close>

text \<open>The accessors \<^verbatim>\<open>Context\<close>, \<^verbatim>\<open>Destination\<close> and \<^verbatim>\<open>Client\<close>.\<close>

definition getContext :: "world \<Rightarrow> ref \<Rightarrow> Context" where
  "getContext w target = ctx (heap w target)"

definition getDestination :: "world \<Rightarrow> ref \<Rightarrow> Destination" where
  "getDestination w target = dest (heap w target)"

definition Client :: "world \<Rightarrow> ref \<Rightarrow> GnmiClient option" where
  "Client w target = clt (heap w target)"

text \<open>
  \<^verbatim>\<open>Close\<close> calls \<^verbatim>\<open>Close\<close> on what \<^verbatim>\<open>Client()\<close> returns. A method call on a nil
  interface value panics.
\<close>

definition Close :: "network \<Rightarrow> world \<Rightarrow> ref \<Rightarrow> error option outcome \<times> world" where
  "Close N w target =
    (case Client w target of
       None \<Rightarrow> (Panic, w)
     | Some c \<Rightarrow> (Return (clientClose N c), w\<lparr>calls := calls w @ [CloseCall c]\<rparr>))"

text \<open>\<^verbatim>\<open>Capabilities\<close>, \<^verbatim>\<open>Get\<close> and \<^verbatim>\<open>Set\<close> on a structured request.\<close>

definition Capabilities ::
  "extern \<Rightarrow> network \<Rightarrow> world \<Rightarrow> ref \<Rightarrow> Context \<Rightarrow> proto
     \<Rightarrow> (proto option \<times> error option) outcome \<times> world" where
  "Capabilities E N w target ctx' request =
    (case Client w target of
       None \<Rightarrow> (Panic, w)
     | Some c \<Rightarrow>
        (let (response, err) = clientCapabilities N c ctx' request;
             w' = w\<lparr>calls := calls w @ [CapabilitiesCall c ctx' request]\<rparr>
         in case err of
              Some e \<Rightarrow>
                (Return (None, Some (Errorf (''target returned RPC error for Capabilities(''
                   @ Quote E (String E request) @ ''): '' @ Error e))), w')
            | None \<Rightarrow> (Return (response, None), w')))"

definition Get ::
  "extern \<Rightarrow> network \<Rightarrow> world \<Rightarrow> ref \<Rightarrow> Context \<Rightarrow> proto
     \<Rightarrow> (proto option \<times> error option) outcome \<times> world" where
  "Get E N w target ctx' request =
    (case Client w target of
       None \<Rightarrow> (Panic, w)
     | Some c \<Rightarrow>
        (let (response, err) = clientGet N c ctx' request;
             w' = w\<lparr>calls := calls w @ [GetCall c ctx' request]\<rparr>
         in case err of
              Some e \<Rightarrow>
                (Return (None, Some (Errorf (''target returned RPC error for Get(''
                   @ Quote E (String E request) @ '') : '' @ Error e))), w')
            | None \<Rightarrow> (Return (response, None), w')))"

definition Set ::
  "extern \<Rightarrow> network \<Rightarrow> world \<Rightarrow> ref \<Rightarrow> Context \<Rightarrow> proto
     \<Rightarrow> (proto option \<times> error option) outcome \<times> world" where
  "Set E N w target ctx' request =
    (case Client w target of
       None \<Rightarrow> (Panic, w)
     | Some c \<Rightarrow>
        (let (response, err) = clientSet N c ctx' request;
             w' = w\<lparr>calls := calls w @ [SetCall c ctx' request]\<rparr>
         in case err of
              Some e \<Rightarrow>
                (Return (None, Some (Errorf (''target returned RPC error for Set(''
                   @ Quote E (String E request) @ '') : '' @ Error e))), w')
            | None \<Rightarrow> (Return (response, None), w')))"

text \<open>
  The string forms. \<^verbatim>\<open>GetWithString\<close> and \<^verbatim>\<open>SetWithString\<close> refuse the empty string
  first; \<^verbatim>\<open>CapabilitiesWithString\<close> ("can be empty") has no such test.
\<close>

definition CapabilitiesWithString ::
  "extern \<Rightarrow> network \<Rightarrow> world \<Rightarrow> ref \<Rightarrow> Context \<Rightarrow> string
     \<Rightarrow> (proto option \<times> error option) outcome \<times> world" where
  "CapabilitiesWithString E N w target ctx' request =
    (let (r, err) = UnmarshalText E CapabilityRequest request
     in case err of
          Some e \<Rightarrow>
            (Return (None, Some (Errorf (''unable to parse gnmi.CapabilityRequest from ''
               @ Quote E request @ '' : '' @ Error e))), w)
        | None \<Rightarrow> Capabilities E N w target ctx' r)"

definition GetWithString ::
  "extern \<Rightarrow> network \<Rightarrow> world \<Rightarrow> ref \<Rightarrow> Context \<Rightarrow> string
     \<Rightarrow> (proto option \<times> error option) outcome \<times> world" where
  "GetWithString E N w target ctx' request =
    (if request = [] then
       (Return (None, Some (NewInvalid ''cannot get an empty request'')), w)
     else
       let (r, err) = UnmarshalText E GetRequest request
       in case err of
            Some e \<Rightarrow>
              (Return (None, Some (Errorf (''unable to parse gnmi.GetRequest from ''
                 @ Quote E request @ '' : '' @ Error e))), w)
          | None \<Rightarrow> Get E N w target ctx' r)"

definition SetWithString ::
  "extern \<Rightarrow> network \<Rightarrow> world \<Rightarrow> ref \<Rightarrow> Context \<Rightarrow> string
     \<Rightarrow> (proto option \<times> error option) outcome \<times> world" where
  "SetWithString E N w target ctx' request =
    (if request = [] then
       (Return (None, Some (NewInvalid ''cannot set an empty request'')), w)
     else
       let (r, err) = UnmarshalText E SetRequest request
       in case err of
            Some e \<Rightarrow>
              (Return (None, Some (Errorf (''unable to parse gnmi.SetRequest from ''
                 @ Quote E request @ '' : '' @ Error e))), w)
          | None \<Rightarrow> Set E N w target ctx' r)"

text \<open>
  Modelled from the spec: \<^verbatim>\<open>GnmiBaseClientFactory\<close>, a package variable of southbound
  that is declared in another file. By the spec a subscription is made on a brand-new
  protocol client opened for it, and the source has it as a throwaway client per
  subscription request: each call constructs a client, here the next handle that has not
  been given out.
\<close>

definition GnmiBaseClientFactory :: "world \<Rightarrow> BaseClient \<times> world" where
  "GnmiBaseClientFactory w = (BaseClient (baseClients w), w\<lparr>baseClients := Suc (baseClients w)\<rparr>)"

text \<open>
  \<^verbatim>\<open>Subscribe\<close>: a query is built from the request, the connection fields are copied
  from the destination of the target, and the subscription is made on the client the base
  factory returns. The field \<^verbatim>\<open>clt\<close> is not read.
\<close>

definition Subscribe ::
  "extern \<Rightarrow> network \<Rightarrow> world \<Rightarrow> ref \<Rightarrow> Context \<Rightarrow> SubscribeRequest
     \<Rightarrow> ProtoHandler option \<Rightarrow> error option \<times> world" where
  "Subscribe E N w target ctx' request handler =
    (let (q0, err) = NewQuery E request
     in case err of
          Some e \<Rightarrow> (Some e, w)
        | None \<Rightarrow>
           (let q = q0\<lparr>qAddrs := dAddrs (getDestination w target),
                       qTimeout := dTimeout (getDestination w target),
                       qTarget := dTarget (getDestination w target),
                       qCredentials := dCredentials (getDestination w target),
                       qTLS := dTLS (getDestination w target),
                       qProtoHandler := handler\<rparr>;
                (c, w1) = GnmiBaseClientFactory w;
                err' = clientSubscribe N c ctx' q ''gnmi'';
                w' = w1\<lparr>calls := calls w1 @ [SubscribeCall c ctx' q ''gnmi'']\<rparr>
            in case err' of
                 Some e \<Rightarrow>
                   (Some (Errorf (''could not create a gNMI for subscription: '' @ Error e)), w')
               | None \<Rightarrow> (None, w')))"

text \<open>
  The base clients on which the subscriptions of a list of calls were made, oldest first.
  In a world where \<open>dedicated\<close> holds, no two subscriptions were made on one client, and
  every client a subscription was made on came from the factory.
\<close>

fun subscribers :: "call list \<Rightarrow> BaseClient list" where
  "subscribers [] = []"
| "subscribers (SubscribeCall c x q t # cs) = c # subscribers cs"
| "subscribers (CloseCall c # cs) = subscribers cs"
| "subscribers (CapabilitiesCall c x r # cs) = subscribers cs"
| "subscribers (GetCall c x r # cs) = subscribers cs"
| "subscribers (SetCall c x r # cs) = subscribers cs"

fun handle :: "BaseClient \<Rightarrow> nat" where
  "handle (BaseClient n) = n"

definition dedicated :: "world \<Rightarrow> bool" where
  "dedicated w =
    (distinct (subscribers (calls w)) \<and>
     list_all (\<lambda>c. handle c < baseClients w) (subscribers (calls w)))"

section \<open>The subscription request builder\<close>

text \<open>
  \<^verbatim>\<open>strings.ToUpper\<close>: on a string of ASCII bytes each lower-case letter is replaced by
  its upper-case letter; any other string goes through the Unicode mapping.
\<close>

definition upperByte :: "char \<Rightarrow> char" where
  "upperByte c =
    (if (97::nat) \<le> of_char c \<and> of_char c \<le> (122::nat) then char_of (of_char c - (32::nat)) else c)"

definition isASCII :: "string \<Rightarrow> bool" where
  "isASCII s = list_all (\<lambda>c. of_char c < (128::nat)) s"

definition ToUpper :: "extern \<Rightarrow> string \<Rightarrow> string" where
  "ToUpper E s = (if isASCII s then map upperByte s else MapToUpper E s)"

text \<open>
  The two \<^verbatim>\<open>switch\<close> statements of \<^verbatim>\<open>NewSubscribeRequest\<close>, on the upper-cased
  mode and stream mode, case by case in the order of the source; \<open>None\<close> is the
  \<^verbatim>\<open>default\<close> case.
\<close>

definition switchMode :: "string \<Rightarrow> SubscriptionList_Mode option" where
  "switchMode u =
    (if u = SubscriptionList_Mode_String SubscriptionList_ONCE then Some SubscriptionList_ONCE
     else if u = SubscriptionList_Mode_String SubscriptionList_POLL then Some SubscriptionList_POLL
     else if u = [] then Some SubscriptionList_STREAM
     else if u = SubscriptionList_Mode_String SubscriptionList_STREAM then Some SubscriptionList_STREAM
     else None)"

definition switchStreamMode :: "string \<Rightarrow> SubscriptionMode option" where
  "switchStreamMode u =
    (if u = SubscriptionMode_String SubscriptionMode_ON_CHANGE then Some SubscriptionMode_ON_CHANGE
     else if u = SubscriptionMode_String SubscriptionMode_SAMPLE then Some SubscriptionMode_SAMPLE
     else if u = [] then Some SubscriptionMode_TARGET_DEFINED
     else if u = SubscriptionMode_String SubscriptionMode_TARGET_DEFINED
       then Some SubscriptionMode_TARGET_DEFINED
     else None)"

text \<open>
  The loop over the paths: \<open>i\<close> is the index, \<open>subs\<close> the slice made with one nil entry
  per path. A path that does not parse ends the loop with the error.
\<close>

fun rangePaths ::
  "extern \<Rightarrow> SubscribeOptions \<Rightarrow> SubscriptionMode \<Rightarrow> nat \<Rightarrow> string list list
     \<Rightarrow> Subscription option list \<Rightarrow> error + Subscription option list" where
  "rangePaths E subscribeOptions streamMode i [] subs = Inr subs"
| "rangePaths E subscribeOptions streamMode i (p # ps) subs =
    (case ParseGNMIElements E p of
       Inl err \<Rightarrow> Inl err
     | Inr gnmiPath \<Rightarrow>
        rangePaths E subscribeOptions streamMode (Suc i) ps
          (subs[i := Some \<lparr>sPath = gnmiPath\<lparr>pOrigin := Origin subscribeOptions\<rparr>,
                           sMode = streamMode,
                           sSampleInterval = SampleInterval subscribeOptions,
                           sHeartbeatInterval = HeartbeatInterval subscribeOptions\<rparr>]))"

definition NewSubscribeRequest ::
  "extern \<Rightarrow> SubscribeOptions \<Rightarrow> SubscribeRequest option \<times> error option" where
  "NewSubscribeRequest E subscribeOptions =
    (case switchMode (ToUpper E (Mode subscribeOptions)) of
       None \<Rightarrow>
         (None, Some (Errorf (''subscribe mode ('' @ Mode subscribeOptions @ '') invalid'')))
     | Some mode \<Rightarrow>
        (case switchStreamMode (ToUpper E (StreamMode subscribeOptions)) of
           None \<Rightarrow>
             (None, Some (Errorf (''subscribe stream mode ('' @ StreamMode subscribeOptions
                                  @ '') invalid'')))
         | Some streamMode \<Rightarrow>
            (case ParseGNMIElements E (SplitPath E (Prefix subscribeOptions)) of
               Inl err \<Rightarrow> (None, Some err)
             | Inr prefixPath \<Rightarrow>
                (case rangePaths E subscribeOptions streamMode 0 (Paths subscribeOptions)
                        (replicate (length (Paths subscribeOptions)) None) of
                   Inl err \<Rightarrow> (None, Some err)
                 | Inr subs \<Rightarrow>
                    (Some (SubscribeRequest_Subscribe
                       \<lparr>lPrefix = prefixPath, lSubscription = subs, lMode = mode,
                        lUpdatesOnly = UpdatesOnly subscribeOptions\<rparr>), None)))))"

section \<open>Fixtures\<close>

text \<open>
  A file system with the certificate files of the tests, parsers that keep what they are
  given, a text parser that accepts the empty string (a message with no field set) and the
  request strings of the tests, and a path parser that makes one element per segment.
\<close>

definition ext0 :: extern where
  "ext0 =
    \<lparr>ReadFile = (\<lambda>p. if p = ''testdata/onfca.crt'' then (''onfca-pem'', None)
                       else ([], Some (Failure ''no such file''))),
     AppendCertsFromPEM = (\<lambda>b. if b = [] then [] else [b]),
     X509KeyPair = (\<lambda>c k. (Certificate [c] k, None)),
     LoadX509KeyPair =
       (\<lambda>c k. if c = ''testdata/client1.crt'' \<and> k = ''testdata/client1.key''
               then (Certificate [''client1-pem''] ''client1-key'', None)
               else (Certificate [] [], Some (Failure ''no such file''))),
     DefaultClientCrt = ''default-crt'',
     DefaultClientKey = ''default-key'',
     OnfCaCrt = ''onfca-pem'',
     NewVersionedID = (\<lambda>i v. i @ '':'' @ v),
     UnmarshalText =
       (\<lambda>m s. if s = ''not a valid string'' then (Proto [], Some (Failure ''unknown field name''))
               else (Proto s, None)),
     String = (\<lambda>m. case m of Proto s \<Rightarrow> s),
     Quote = (\<lambda>s. ''\"'' @ s @ ''\"''),
     NewQuery =
       (\<lambda>r. (\<lparr>qAddrs = [], qTimeout = 0, qTarget = [], qCredentials = None, qTLS = None,
                qProtoHandler = None, qSubscribe = Some r\<rparr>, None)),
     MapToUpper = (\<lambda>s. s),
     SplitPath = (\<lambda>s. if s = [] then [] else [s]),
     ParseGNMIElements =
       (\<lambda>es. if ''['' \<in> set es then Inl (Failure ''malformed path'')
              else Inr \<lparr>pOrigin = [], pElem = map (\<lambda>e. PathElem e []) es, pTarget = []\<rparr>)\<rparr>"

text \<open>The device of the tests, and the variants the tests make of it.\<close>

definition device1 :: Device where
  "device1 =
    \<lparr>ID = ''localhost:10161'', Address = ''localhost:10161'', Target = [],
     Version = ''1.0.0'', Timeout = None,
     Credentials = \<lparr>User = [], Password = []\<rparr>,
     TLS = \<lparr>CaCert = [], Cert = [], Key = [], Plain = False, Insecure = False\<rparr>\<rparr>"

definition deviceUserPassword :: Device where
  "deviceUserPassword = device1\<lparr>Credentials := \<lparr>User = ''User'', Password = ''Password''\<rparr>\<rparr>"

definition deviceCertPathUserPassword :: Device where
  "deviceCertPathUserPassword =
    deviceUserPassword\<lparr>TLS := (TLS device1)\<lparr>Cert := ''cert path''\<rparr>\<rparr>"

definition deviceInsecure :: Device where
  "deviceInsecure = device1\<lparr>TLS := (TLS device1)\<lparr>Cert := ''cert path''\<rparr>\<rparr>"

definition deviceWithCert :: Device where
  "deviceWithCert =
    device1\<lparr>TLS := (TLS device1)\<lparr>Cert := ''testdata/client1.crt'', Key := ''testdata/client1.key'',
                                  CaCert := ''testdata/onfca.crt''\<rparr>\<rparr>"

text \<open>
  The zero value \<^verbatim>\<open>Target{}\<close>, a world of such targets with an empty registry, client
  factories that succeed with a fixed client or fail, and a device that answers every
  call.
\<close>

definition zeroTarget :: Target where
  "zeroTarget =
    \<lparr>dest = \<lparr>dAddrs = [], dTarget = [], dTimeout = 0, dTLS = None, dCredentials = None\<rparr>,
     clt = None, ctx = 0\<rparr>"

definition world0 :: world where
  "world0 = \<lparr>targets = [], heap = (\<lambda>r. zeroTarget), calls = [], baseClients = 0\<rparr>"

definition factory1 :: factories where
  "factory1 =
    \<lparr>GnmiClientFactory = (\<lambda>c d. (Some (GnmiClient 1), None))\<rparr>"

definition factory2 :: factories where
  "factory2 =
    \<lparr>GnmiClientFactory = (\<lambda>c d. (Some (GnmiClient 2), None))\<rparr>"

definition failingFactory :: factories where
  "failingFactory =
    \<lparr>GnmiClientFactory = (\<lambda>c d. (None, Some (Failure ''connection refused'')))\<rparr>"

definition net0 :: network where
  "net0 =
    \<lparr>clientCapabilities = (\<lambda>c x r. (Some (Proto ''gNMI_version: 1.0''), None)),
     clientGet = (\<lambda>c x r. (Some (Proto ''notification: <>''), None)),
     clientSet = (\<lambda>c x r. (Some (Proto ''response: <op: DELETE>''), None)),
     clientClose = (\<lambda>c. None),
     clientSubscribe = (\<lambda>c x q t. None)\<rparr>"

text \<open>The world after the target at address 0 has connected to the device of the tests.\<close>

definition connected1 :: world where
  "connected1 = snd (ConnectTarget factory1 ext0 world0 0 0 device1)"

text \<open>The subscribe options of the tests.\<close>

definition options1 :: SubscribeOptions where
  "options1 =
    \<lparr>UpdatesOnly = False, Prefix = [], Mode = ''Stream'', StreamMode = ''target_defined'',
     SampleInterval = 15, HeartbeatInterval = 15, Paths = [[''a'', ''b'', ''c'']],
     Origin = []\<rparr>"

section \<open>The mode names as the specification has them\<close>

text \<open>
  The specification resolves a mode string by comparing it without regard to case with
  the names of the enumeration, the empty string standing for the default. These two
  functions say that in its words, for the letters of ASCII, and are compared below with
  what the two \<^verbatim>\<open>switch\<close> statements do.
\<close>

definition spec_resolveMode :: "string \<Rightarrow> SubscriptionList_Mode option" where
  "spec_resolveMode s =
    (if s = [] then Some SubscriptionList_STREAM
     else if map upperByte s = ''ONCE'' then Some SubscriptionList_ONCE
     else if map upperByte s = ''POLL'' then Some SubscriptionList_POLL
     else if map upperByte s = ''STREAM'' then Some SubscriptionList_STREAM
     else None)"

definition spec_resolveStreamMode :: "string \<Rightarrow> SubscriptionMode option" where
  "spec_resolveStreamMode s =
    (if s = [] then Some SubscriptionMode_TARGET_DEFINED
     else if map upperByte s = ''ON_CHANGE'' then Some SubscriptionMode_ON_CHANGE
     else if map upperByte s = ''SAMPLE'' then Some SubscriptionMode_SAMPLE
     else if map upperByte s = ''TARGET_DEFINED'' then Some SubscriptionMode_TARGET_DEFINED
     else None)"

text \<open>The subscription that the loop of \<^verbatim>\<open>NewSubscribeRequest\<close> stores for a parsed path.\<close>

definition mkSubscription :: "SubscribeOptions \<Rightarrow> SubscriptionMode \<Rightarrow> Path \<Rightarrow> Subscription" where
  "mkSubscription subscribeOptions streamMode gnmiPath =
     \<lparr>sPath = gnmiPath\<lparr>pOrigin := Origin subscribeOptions\<rparr>,
      sMode = streamMode,
      sSampleInterval = SampleInterval subscribeOptions,
      sHeartbeatInterval = HeartbeatInterval subscribeOptions\<rparr>"

text \<open>Options with a mode that is no name, a registry with one entry made by hand.\<close>

definition optionsBadMode :: SubscribeOptions where
  "optionsBadMode = options1\<lparr>Mode := ''bogus''\<rparr>"

definition optionsBadStreamMode :: SubscribeOptions where
  "optionsBadStreamMode = options1\<lparr>StreamMode := ''sometimes''\<rparr>"

definition registered1 :: world where
  "registered1 = NewTargetItem world0 ''device-2:1.0.0'' 3"

text \<open>
  A mode in which the first letter is U+017F, the long s, whose UTF-8 bytes are C5 BF, and
  collaborators whose Unicode upper-casing maps it to S, as \<^verbatim>\<open>unicode.ToUpper\<close> does.
\<close>

definition longStream :: string where
  "longStream = [CHR 0xC5, CHR 0xBF] @ ''tream''"

definition extUnicode :: extern where
  "extUnicode = ext0\<lparr>MapToUpper := (\<lambda>s. if s = longStream then ''STREAM'' else s)\<rparr>"

definition optionsLongS :: SubscribeOptions where
  "optionsLongS = options1\<lparr>Mode := longStream\<rparr>"

text \<open>The request built from the options of the tests.\<close>

definition request1 :: SubscribeRequest where
  "request1 =
    SubscribeRequest_Subscribe
      \<lparr>lPrefix = \<lparr>pOrigin = [], pElem = [], pTarget = []\<rparr>,
       lSubscription =
         [Some \<lparr>sPath = \<lparr>pOrigin = [],
                          pElem = [PathElem ''a'' [], PathElem ''b'' [], PathElem ''c'' []],
                          pTarget = []\<rparr>,
                sMode = SubscriptionMode_TARGET_DEFINED,
                sSampleInterval = 15, sHeartbeatInterval = 15\<rparr>],
       lMode = SubscriptionList_STREAM, lUpdatesOnly = False\<rparr>"

section \<open>Auxiliary facts\<close>

text \<open>
  The key a connect returns, and the world a successful connect leaves.
\<close>

lemma createDestination_key:
  "snd (createDestination E device) = NewVersionedID E (ID device) (Version device)"
  by (simp add: createDestination_def Let_def)

lemma ConnectTarget_success:
  assumes "GnmiClientFactory F ctx' (fst (createDestination E device)) = (c, None)"
  shows "ConnectTarget F E w target ctx' device =
           ((NewVersionedID E (ID device) (Version device), None),
            w\<lparr>calls := calls w @ (case clt (heap w target) of None \<Rightarrow> [] | Some old \<Rightarrow> [CloseCall old]),
              heap := (heap w)(target := (heap w target)
                         \<lparr>dest := fst (createDestination E device), clt := c, ctx := ctx'\<rparr>),
              targets := AList.update (NewVersionedID E (ID device) (Version device)) target
                           (targets w)\<rparr>)"
  using assms createDestination_key [of E device]
  by (auto simp: ConnectTarget_def Let_def split: prod.splits option.splits)

text \<open>
  A client that is held is the one \<^verbatim>\<open>Close\<close> closes.
\<close>

lemma Close_held_client:
  "clt (heap w target) = Some c \<Longrightarrow>
     Close N w target = (Return (clientClose N c), w\<lparr>calls := calls w @ [CloseCall c]\<rparr>)"
  by (simp add: Close_def Client_def)

text \<open>
  The loop over the registry appends the keys of the entries, in their order.
\<close>

lemma rangeTargets_eq: "rangeTargets entries targetNames = targetNames @ map fst entries"
  by (induction entries targetNames rule: rangeTargets.induct) simp_all

text \<open>
  The subscribers of a list of calls; a call on the client of a target adds none, so an
  operation that makes only such calls keeps \<open>dedicated\<close>.
\<close>

lemma subscribers_append: "subscribers (cs @ ds) = subscribers cs @ subscribers ds"
  by (induction cs rule: subscribers.induct) simp_all

lemma dedicated_ConnectTarget:
  "dedicated w \<Longrightarrow> dedicated (snd (ConnectTarget F E w target ctx' device))"
  by (auto simp: ConnectTarget_def dedicated_def subscribers_append Let_def
           split: prod.splits option.splits)

lemma dedicated_Close: "dedicated w \<Longrightarrow> dedicated (snd (Close N w target))"
  by (auto simp: Close_def dedicated_def subscribers_append split: option.splits)

lemma dedicated_Get: "dedicated w \<Longrightarrow> dedicated (snd (Get E N w target ctx' request))"
  by (auto simp: Get_def dedicated_def subscribers_append Let_def split: prod.splits option.splits)

lemma dedicated_Set: "dedicated w \<Longrightarrow> dedicated (snd (Set E N w target ctx' request))"
  by (auto simp: Set_def dedicated_def subscribers_append Let_def split: prod.splits option.splits)

lemma dedicated_Capabilities:
  "dedicated w \<Longrightarrow> dedicated (snd (Capabilities E N w target ctx' request))"
  by (auto simp: Capabilities_def dedicated_def subscribers_append Let_def
           split: prod.splits option.splits)

lemma dedicated_Subscribe:
  assumes "dedicated w"
  shows "BaseClient (baseClients w) \<notin> set (subscribers (calls w)) \<and>
         dedicated (snd (Subscribe E N w target ctx' request handler))"
proof -
  from assms have d: "distinct (subscribers (calls w))"
    and b: "list_all (\<lambda>c. handle c < baseClients w) (subscribers (calls w))"
    by (simp_all add: dedicated_def)
  have fresh: "BaseClient (baseClients w) \<notin> set (subscribers (calls w))"
  proof
    assume m: "BaseClient (baseClients w) \<in> set (subscribers (calls w))"
    from b have "\<forall>c \<in> set (subscribers (calls w)). handle c < baseClients w"
      by (simp add: list_all_iff)
    with m have "handle (BaseClient (baseClients w)) < baseClients w"
      by blast
    then show False by simp
  qed
  have mono: "list_all (\<lambda>c. handle c < Suc (baseClients w)) (subscribers (calls w))"
    using b by (auto simp: list_all_iff)
  from d b fresh mono show ?thesis
    by (auto simp: Subscribe_def GnmiBaseClientFactory_def dedicated_def subscribers_append Let_def
             split: prod.splits option.splits)
qed

text \<open>
  Every key of the list is printed in the text of the slice.
\<close>

lemma sublist_joinSpace: "k \<in> set ks \<Longrightarrow> sublist k (joinSpace ks)"
proof (induction ks rule: joinSpace.induct)
  case 1
  then show ?case by simp
next
  case (2 k')
  then show ?case by simp
next
  case (3 k' v va)
  show ?case
  proof (cases "k = k'")
    case True
    then show ?thesis by simp
  next
    case False
    with 3 have "sublist k (joinSpace (v # va))" by simp
    then obtain ps ss where "joinSpace (v # va) = ps @ k @ ss"
      by (auto simp: sublist_def)
    then have "joinSpace (k' # v # va) = (k' @ '' '' @ ps) @ k @ ss" by simp
    then show ?thesis unfolding sublist_def by blast
  qed
qed

lemma sublist_formatSlice: "k \<in> set ks \<Longrightarrow> sublist k (formatSlice ks)"
proof -
  assume "k \<in> set ks"
  then obtain ps ss where "joinSpace ks = ps @ k @ ss"
    using sublist_joinSpace [of k ks] by (auto simp: sublist_def)
  then have "formatSlice ks = (''['' @ ps) @ k @ (ss @ '']'')"
    by (simp add: formatSlice_def)
  then show ?thesis unfolding sublist_def by blast
qed

lemma sublist_append_right: "sublist k ys \<Longrightarrow> sublist k (xs @ ys)"
proof -
  assume "sublist k ys"
  then obtain ps ss where "ys = ps @ k @ ss" by (auto simp: sublist_def)
  then have "xs @ ys = (xs @ ps) @ k @ ss" by simp
  then show ?thesis unfolding sublist_def by blast
qed

text \<open>
  Upper-casing: a string whose upper-cased bytes are ASCII is ASCII itself, so a name in
  any mix of cases takes the ASCII branch of \<^verbatim>\<open>strings.ToUpper\<close>.
\<close>

lemma upperByte_ascii: "of_char (upperByte c) < (128::nat) \<Longrightarrow> of_char c < (128::nat)"
  by (auto simp: upperByte_def split: if_splits)

lemma isASCII_map_upperByte: "isASCII (map upperByte s) \<Longrightarrow> isASCII s"
  by (induction s) (auto simp: isASCII_def dest: upperByte_ascii)

lemma ToUpper_case_variant: "map upperByte s = t \<Longrightarrow> isASCII t \<Longrightarrow> ToUpper E s = t"
  using isASCII_map_upperByte [of s] by (auto simp: ToUpper_def)

lemma ToUpper_isASCII: "isASCII s \<Longrightarrow> ToUpper E s = map upperByte s"
  by (simp add: ToUpper_def)

lemma isASCII_names:
  "isASCII ''ONCE''" "isASCII ''POLL''" "isASCII ''STREAM''"
  "isASCII ''ON_CHANGE''" "isASCII ''SAMPLE''" "isASCII ''TARGET_DEFINED''"
  by (simp_all add: isASCII_def)

lemma switchMode_spec:
  "spec_resolveMode s = Some m \<Longrightarrow> switchMode (ToUpper E s) = Some m"
  by (auto simp: spec_resolveMode_def switchMode_def ToUpper_isASCII ToUpper_case_variant isASCII_names
           isASCII_def split: if_splits)

lemma switchMode_ascii:
  "isASCII s \<Longrightarrow> switchMode (ToUpper E s) = spec_resolveMode s"
  by (auto simp: spec_resolveMode_def switchMode_def ToUpper_isASCII)

lemma switchStreamMode_spec:
  "spec_resolveStreamMode s = Some m \<Longrightarrow> switchStreamMode (ToUpper E s) = Some m"
  by (auto simp: spec_resolveStreamMode_def switchStreamMode_def ToUpper_isASCII ToUpper_case_variant
           isASCII_names isASCII_def split: if_splits)

lemma switchStreamMode_ascii:
  "isASCII s \<Longrightarrow> switchStreamMode (ToUpper E s) = spec_resolveStreamMode s"
  by (auto simp: spec_resolveStreamMode_def switchStreamMode_def ToUpper_isASCII)

text \<open>
  The loop over the paths: when every path parses, the entries from index \<open>i\<close> on are
  the subscriptions of the parsed paths, in their order; and a loop that returns a slice
  has parsed every path.
\<close>

lemma rangePaths_all_parsed:
  "map (ParseGNMIElements E) ps = map Inr gs \<Longrightarrow> i + length ps \<le> length subs \<Longrightarrow>
   rangePaths E subscribeOptions streamMode i ps subs =
     Inr (take i subs @ map (\<lambda>g. Some (mkSubscription subscribeOptions streamMode g)) gs
          @ drop (i + length ps) subs)"
proof (induction ps arbitrary: i subs gs)
  case Nil
  then show ?case by simp
next
  case (Cons p ps)
  from Cons.prems(1) obtain g gs' where gs: "gs = g # gs'" and p: "ParseGNMIElements E p = Inr g"
    and ps: "map (ParseGNMIElements E) ps = map Inr gs'"
    by (cases gs) auto
  let ?x = "Some (mkSubscription subscribeOptions streamMode g)"
  from Cons.prems(2) have i: "i < length subs" and len: "Suc i + length ps \<le> length (subs[i := ?x])"
    by simp_all
  have "rangePaths E subscribeOptions streamMode (Suc i) ps (subs[i := ?x]) =
          Inr (take (Suc i) (subs[i := ?x])
               @ map (\<lambda>g. Some (mkSubscription subscribeOptions streamMode g)) gs'
               @ drop (Suc i + length ps) (subs[i := ?x]))"
    by (rule Cons.IH [OF ps len])
  moreover have "take (Suc i) (subs[i := ?x]) = take i subs @ [?x]"
    using i by (simp add: take_Suc_conv_app_nth)
  moreover have "drop (Suc i + length ps) (subs[i := ?x]) = drop (i + length (p # ps)) subs"
    by simp
  ultimately show ?case using p gs by (simp add: mkSubscription_def)
qed

lemma rangePaths_Inr_parsed:
  "rangePaths E subscribeOptions streamMode i ps subs = Inr subs' \<Longrightarrow>
   \<exists>gs. map (ParseGNMIElements E) ps = map Inr gs"
proof (induction ps arbitrary: i subs)
  case Nil
  then show ?case by simp
next
  case (Cons p ps)
  from Cons.prems obtain g where p: "ParseGNMIElements E p = Inr g"
    by (cases "ParseGNMIElements E p") auto
  with Cons.prems obtain gs where "map (ParseGNMIElements E) ps = map Inr gs"
    using Cons.IH by fastforce
  with p have "map (ParseGNMIElements E) (p # ps) = map Inr (g # gs)" by simp
  then show ?case by blast
qed

lemma rangePaths_replicate:
  assumes "map (ParseGNMIElements E) ps = map Inr gs"
  shows "rangePaths E subscribeOptions streamMode 0 ps (replicate (length ps) None) =
           Inr (map (\<lambda>g. Some (mkSubscription subscribeOptions streamMode g)) gs)"
  using rangePaths_all_parsed [OF assms, of 0 "replicate (length ps) None"] by simp

lemma NewSubscribeRequest_success:
  assumes "switchMode (ToUpper E (Mode subscribeOptions)) = Some mode"
      and "switchStreamMode (ToUpper E (StreamMode subscribeOptions)) = Some streamMode"
      and "ParseGNMIElements E (SplitPath E (Prefix subscribeOptions)) = Inr prefixPath"
      and "map (ParseGNMIElements E) (Paths subscribeOptions) = map Inr gnmiPaths"
  shows "NewSubscribeRequest E subscribeOptions =
           (Some (SubscribeRequest_Subscribe
              \<lparr>lPrefix = prefixPath,
               lSubscription =
                 map (\<lambda>gnmiPath.
                        Some \<lparr>sPath = gnmiPath\<lparr>pOrigin := Origin subscribeOptions\<rparr>,
                              sMode = streamMode,
                              sSampleInterval = SampleInterval subscribeOptions,
                              sHeartbeatInterval = HeartbeatInterval subscribeOptions\<rparr>)
                     gnmiPaths,
               lMode = mode,
               lUpdatesOnly = UpdatesOnly subscribeOptions\<rparr>), None)"
  using assms(1-3) rangePaths_replicate [OF assms(4), of subscribeOptions streamMode]
  by (simp add: NewSubscribeRequest_def mkSubscription_def)

lemma rangePaths_Inl_failed:
  "rangePaths E subscribeOptions streamMode i ps subs = Inl err \<Longrightarrow>
   \<exists>p \<in> set ps. ParseGNMIElements E p = Inl err"
proof (induction ps arbitrary: i subs)
  case Nil
  then show ?case by simp
next
  case (Cons p ps)
  show ?case
  proof (cases "ParseGNMIElements E p")
    case (Inl e)
    with Cons.prems show ?thesis by simp
  next
    case (Inr g)
    with Cons.prems Cons.IH show ?thesis by fastforce
  qed
qed

lemma NewSubscribeRequest_resolved:
  assumes "switchMode (ToUpper E (Mode subscribeOptions)) = Some mode"
      and "switchStreamMode (ToUpper E (StreamMode subscribeOptions)) = Some streamMode"
  shows "(\<exists>l. NewSubscribeRequest E subscribeOptions = (Some (SubscribeRequest_Subscribe l), None) \<and>
              lMode l = mode \<and>
              length (lSubscription l) = length (Paths subscribeOptions) \<and>
              (\<forall>s \<in> set (lSubscription l). map_option sMode s = Some streamMode)) \<or>
         (\<exists>err. NewSubscribeRequest E subscribeOptions = (None, Some err) \<and>
              (ParseGNMIElements E (SplitPath E (Prefix subscribeOptions)) = Inl err \<or>
               (\<exists>p \<in> set (Paths subscribeOptions). ParseGNMIElements E p = Inl err)))"
proof (cases "ParseGNMIElements E (SplitPath E (Prefix subscribeOptions))")
  case (Inl err)
  with assms have "NewSubscribeRequest E subscribeOptions = (None, Some err)"
    by (simp add: NewSubscribeRequest_def)
  with Inl show ?thesis by blast
next
  case (Inr prefixPath)
  show ?thesis
  proof (cases "rangePaths E subscribeOptions streamMode 0 (Paths subscribeOptions)
                  (replicate (length (Paths subscribeOptions)) None)")
    case (Inl err)
    with assms Inr have "NewSubscribeRequest E subscribeOptions = (None, Some err)"
      by (simp add: NewSubscribeRequest_def)
    moreover from Inl have "\<exists>p \<in> set (Paths subscribeOptions). ParseGNMIElements E p = Inl err"
      by (rule rangePaths_Inl_failed)
    ultimately show ?thesis by blast
  next
    case (Inr subs)
    then obtain gs where gs: "map (ParseGNMIElements E) (Paths subscribeOptions) = map Inr gs"
      using rangePaths_Inr_parsed by blast
    then have len: "length gs = length (Paths subscribeOptions)"
      by (metis length_map)
    let ?l = "\<lparr>lPrefix = prefixPath,
               lSubscription =
                 map (\<lambda>gnmiPath.
                        Some \<lparr>sPath = gnmiPath\<lparr>pOrigin := Origin subscribeOptions\<rparr>,
                              sMode = streamMode,
                              sSampleInterval = SampleInterval subscribeOptions,
                              sHeartbeatInterval = HeartbeatInterval subscribeOptions\<rparr>)
                     gs,
               lMode = mode,
               lUpdatesOnly = UpdatesOnly subscribeOptions\<rparr>"
    from NewSubscribeRequest_success [OF assms \<open>ParseGNMIElements E (SplitPath E (Prefix subscribeOptions)) = Inr prefixPath\<close> gs]
    have "NewSubscribeRequest E subscribeOptions = (Some (SubscribeRequest_Subscribe ?l), None)" .
    moreover have "lMode ?l = mode" by simp
    moreover have "length (lSubscription ?l) = length (Paths subscribeOptions)" using len by simp
    moreover have "\<forall>s \<in> set (lSubscription ?l). map_option sMode s = Some streamMode" by auto
    ultimately show ?thesis by blast
  qed
qed

lemma switchMode_iff:
  "switchMode u = Some mode \<longleftrightarrow>
     u = SubscriptionList_Mode_String mode \<or> (u = [] \<and> mode = SubscriptionList_STREAM)"
  by (cases mode) (auto simp: switchMode_def)

lemma switchStreamMode_iff:
  "switchStreamMode u = Some streamMode \<longleftrightarrow>
     u = SubscriptionMode_String streamMode \<or>
     (u = [] \<and> streamMode = SubscriptionMode_TARGET_DEFINED)"
  by (cases streamMode) (auto simp: switchStreamMode_def)

section \<open>The resolver\<close>

text \<open>
  Claim C1, as amended. For a device with a secure transport the resolver chooses the
  client identity in this order: when the certificate path and the key path are both
  empty, it attaches the embedded default certificate and key and no credentials, whether
  or not a username and a password are set; when both paths are set, it attaches the key
  pair loaded from them and no credentials; when exactly one path is set and the username
  and the password are both set, it attaches the credentials and no client certificate.
\<close>

theorem createDestination_client_identity:
  assumes "\<not> Plain (TLS device)"
  shows "(Cert (TLS device) = [] \<and> Key (TLS device) = [] \<longrightarrow>
           dCredentials (fst (createDestination E device)) = None \<and>
           map_option Certificates (dTLS (fst (createDestination E device))) =
             Some [fst (X509KeyPair E (DefaultClientCrt E) (DefaultClientKey E))]) \<and>
         (Cert (TLS device) \<noteq> [] \<and> Key (TLS device) \<noteq> [] \<longrightarrow>
           dCredentials (fst (createDestination E device)) = None \<and>
           map_option Certificates (dTLS (fst (createDestination E device))) =
             Some [setCertificate E (Cert (TLS device)) (Key (TLS device))]) \<and>
         ((Cert (TLS device) = []) \<noteq> (Key (TLS device) = []) \<and>
          User (Credentials device) \<noteq> [] \<and> Password (Credentials device) \<noteq> [] \<longrightarrow>
           dCredentials (fst (createDestination E device)) =
             Some \<lparr>dUsername = User (Credentials device), dPassword = Password (Credentials device)\<rparr> \<and>
           map_option Certificates (dTLS (fst (createDestination E device))) = Some [])"
  using assms by (auto simp: createDestination_def Let_def)

theorem createDestination_client_identity_witness:
  "\<not> Plain (TLS deviceUserPassword) \<and>
   Cert (TLS deviceUserPassword) = [] \<and> Key (TLS deviceUserPassword) = [] \<and>
   dCredentials (fst (createDestination ext0 deviceUserPassword)) = None \<and>
   map_option Certificates (dTLS (fst (createDestination ext0 deviceUserPassword))) =
     Some [Certificate [''default-crt''] ''default-key''] \<and>
   \<not> Plain (TLS deviceWithCert) \<and>
   dCredentials (fst (createDestination ext0 deviceWithCert)) = None \<and>
   map_option Certificates (dTLS (fst (createDestination ext0 deviceWithCert))) =
     Some [Certificate [''client1-pem''] ''client1-key''] \<and>
   \<not> Plain (TLS deviceCertPathUserPassword) \<and>
   dCredentials (fst (createDestination ext0 deviceCertPathUserPassword)) =
     Some \<lparr>dUsername = ''User'', dPassword = ''Password''\<rparr> \<and>
   map_option Certificates (dTLS (fst (createDestination ext0 deviceCertPathUserPassword))) = Some []"
proof -
  have p1: "\<not> Plain (TLS deviceUserPassword)" by code_simp
  have p2: "\<not> Plain (TLS deviceWithCert)" by code_simp
  have p3: "\<not> Plain (TLS deviceCertPathUserPassword)" by code_simp
  have f1: "Cert (TLS deviceUserPassword) = []" "Key (TLS deviceUserPassword) = []"
    by (simp_all add: deviceUserPassword_def device1_def)
  have f2: "Cert (TLS deviceWithCert) = ''testdata/client1.crt''"
    "Key (TLS deviceWithCert) = ''testdata/client1.key''"
    by (simp_all add: deviceWithCert_def device1_def)
  have f3: "Cert (TLS deviceCertPathUserPassword) = ''cert path''"
    "Key (TLS deviceCertPathUserPassword) = []"
    "User (Credentials deviceCertPathUserPassword) = ''User''"
    "Password (Credentials deviceCertPathUserPassword) = ''Password''"
    by (simp_all add: deviceCertPathUserPassword_def deviceUserPassword_def device1_def)
  have e: "fst (X509KeyPair ext0 (DefaultClientCrt ext0) (DefaultClientKey ext0)) =
             Certificate [''default-crt''] ''default-key''"
    "setCertificate ext0 ''testdata/client1.crt'' ''testdata/client1.key'' =
       Certificate [''client1-pem''] ''client1-key''"
    by (simp_all add: ext0_def setCertificate_def)
  from createDestination_client_identity [OF p1, of ext0]
    createDestination_client_identity [OF p2, of ext0]
    createDestination_client_identity [OF p3, of ext0]
    p1 p2 p3 f1 f2 f3 e
  show ?thesis by simp
qed

text \<open>
  Claim C1 as stated fails: the device of the tests with no certificate and key paths and
  with a username and a password gets the default key pair and no credentials.
\<close>

theorem createDestination_userpass_counterexample:
  "dCredentials (fst (createDestination ext0 deviceUserPassword)) = None \<and>
   dTLS (fst (createDestination ext0 deviceUserPassword)) =
     Some \<lparr>InsecureSkipVerify = False, RootCAs = Some [''onfca-pem''],
           Certificates = [Certificate [''default-crt''] ''default-key'']\<rparr>"
  by (simp add: createDestination_def deviceUserPassword_def device1_def ext0_def Let_def getCertPoolDefault_def)

text \<open>
  Claim C10. For a device with a secure transport that has exactly one of the certificate
  path and the key path set, and not both a username and a password, the TLS config of the
  destination is the one that holds only \<^verbatim>\<open>InsecureSkipVerify = true\<close>: the root CA pool
  set before is gone, there is no client certificate, and there are no credentials.
\<close>

theorem createDestination_degraded:
  assumes "\<not> Plain (TLS device)"
      and "(Cert (TLS device) = []) \<noteq> (Key (TLS device) = [])"
      and "\<not> (User (Credentials device) \<noteq> [] \<and> Password (Credentials device) \<noteq> [])"
  shows "dTLS (fst (createDestination E device)) =
           Some \<lparr>InsecureSkipVerify = True, RootCAs = None, Certificates = []\<rparr> \<and>
         dCredentials (fst (createDestination E device)) = None"
  using assms by (auto simp: createDestination_def Let_def)

theorem createDestination_degraded_witness:
  "\<not> Plain (TLS deviceInsecure) \<and>
   (Cert (TLS deviceInsecure) = []) \<noteq> (Key (TLS deviceInsecure) = []) \<and>
   \<not> (User (Credentials deviceInsecure) \<noteq> [] \<and> Password (Credentials deviceInsecure) \<noteq> []) \<and>
   dTLS (fst (createDestination ext0 deviceInsecure)) =
     Some \<lparr>InsecureSkipVerify = True, RootCAs = None, Certificates = []\<rparr> \<and>
   dCredentials (fst (createDestination ext0 deviceInsecure)) = None"
proof -
  have h1: "\<not> Plain (TLS deviceInsecure)" by (simp add: deviceInsecure_def device1_def)
  have h2: "(Cert (TLS deviceInsecure) = []) \<noteq> (Key (TLS deviceInsecure) = [])"
    by (simp add: deviceInsecure_def device1_def)
  have h3: "\<not> (User (Credentials deviceInsecure) \<noteq> [] \<and> Password (Credentials deviceInsecure) \<noteq> [])"
    by (simp add: deviceInsecure_def device1_def)
  from createDestination_degraded [OF h1 h2 h3, of ext0] h1 h2 h3 show ?thesis by simp
qed

section \<open>The registry\<close>

text \<open>
  Claim C2. When the client factory returns an error, \<^verbatim>\<open>ConnectTarget\<close> returns the
  empty key and an error that wraps it, and the world is the one before the call: the
  registry, every target (its destination, client and context) and the list of calls made
  on clients, so that no client has been closed.
\<close>

theorem ConnectTarget_factory_failure:
  assumes "snd (GnmiClientFactory F ctx' (fst (createDestination E device))) = Some e"
  shows "ConnectTarget F E w target ctx' device =
           (([], Some (Errorf (''could not create a gNMI client: '' @ Error e))), w)"
  using assms by (auto simp: ConnectTarget_def split: prod.splits)

theorem ConnectTarget_factory_failure_witness:
  "snd (GnmiClientFactory failingFactory 5 (fst (createDestination ext0 deviceWithCert))) =
     Some (Failure ''connection refused'') \<and>
   ConnectTarget failingFactory ext0 connected1 0 5 deviceWithCert =
     (([], Some (Errorf ''could not create a gNMI client: connection refused'')), connected1) \<and>
   Client connected1 0 = Some (GnmiClient 1) \<and>
   map_of (targets connected1) ''localhost:10161:1.0.0'' = Some 0"
proof -
  have h: "snd (GnmiClientFactory failingFactory 5 (fst (createDestination ext0 deviceWithCert))) =
     Some (Failure ''connection refused'')"
    by (simp add: failingFactory_def)
  have c: "Client connected1 0 = Some (GnmiClient 1)" by code_simp
  have t: "map_of (targets connected1) ''localhost:10161:1.0.0'' = Some 0" by code_simp
  show ?thesis
    using h c t ConnectTarget_factory_failure [OF h, of connected1 0] by simp
qed

text \<open>
  Claim C3, as amended. Two successful connects for the same device identity, the first on
  a target \<open>t1\<close> and the second on a target \<open>t2\<close>, return the same key and leave the
  registry mapping that key to one target, \<open>t2\<close>, which holds the second client: a lookup
  by the key returns \<open>t2\<close>, whose client is not the first one, and a registry with one
  entry for a key still has one entry for a key. A connect closes the client of the target
  it is called on: the calls the two connects add are the close of what \<open>t1\<close> held, if
  anything, and then the close of what \<open>t2\<close> holds at the second connect, which is the
  first client when \<open>t2\<close> is \<open>t1\<close> (it is then closed exactly once) and otherwise what
  \<open>t2\<close> held from the start.
\<close>

theorem ConnectTarget_twice:
  assumes "ID device' = ID device" and "Version device' = Version device"
      and "GnmiClientFactory F1 ctx1 (fst (createDestination E device)) = (Some c1, None)"
      and "GnmiClientFactory F2 ctx2 (fst (createDestination E device')) = (Some c2, None)"
      and "c1 \<noteq> c2"
      and "ConnectTarget F1 E w t1 ctx1 device = (r1, w1)"
      and "ConnectTarget F2 E w1 t2 ctx2 device' = (r2, w2)"
  shows "r1 = (NewVersionedID E (ID device) (Version device), None) \<and>
         r2 = (NewVersionedID E (ID device) (Version device), None) \<and>
         calls w2 =
           calls w @ (case clt (heap w t1) of None \<Rightarrow> [] | Some old \<Rightarrow> [CloseCall old])
             @ (case (if t2 = t1 then Some c1 else clt (heap w t2)) of
                  None \<Rightarrow> [] | Some old \<Rightarrow> [CloseCall old]) \<and>
         (t2 = t1 \<longrightarrow>
            calls w2 =
              calls w @ (case clt (heap w t1) of None \<Rightarrow> [] | Some old \<Rightarrow> [CloseCall old])
                @ [CloseCall c1]) \<and>
         map_of (targets w2) (NewVersionedID E (ID device) (Version device)) = Some t2 \<and>
         (distinct (map fst (targets w)) \<longrightarrow> distinct (map fst (targets w2))) \<and>
         clt (heap w2 t2) = Some c2 \<and>
         GetTarget w2 (NewVersionedID E (ID device) (Version device)) = ((Some t2, None), w2) \<and>
         Client w2 t2 \<noteq> Some c1"
proof -
  let ?key = "NewVersionedID E (ID device) (Version device)"
  from assms(6) ConnectTarget_success [OF assms(3), of w t1]
  have r1: "r1 = (?key, None)"
    and w1: "w1 = w\<lparr>calls := calls w @ (case clt (heap w t1) of None \<Rightarrow> [] | Some old \<Rightarrow> [CloseCall old]),
              heap := (heap w)(t1 := (heap w t1)
                         \<lparr>dest := fst (createDestination E device), clt := Some c1, ctx := ctx1\<rparr>),
              targets := AList.update ?key t1 (targets w)\<rparr>"
    by simp_all
  from assms(7) ConnectTarget_success [OF assms(4), of w1 t2] assms(1,2)
  have r2: "r2 = (?key, None)"
    and w2: "w2 = w1\<lparr>calls := calls w1 @ (case clt (heap w1 t2) of None \<Rightarrow> [] | Some old \<Rightarrow> [CloseCall old]),
              heap := (heap w1)(t2 := (heap w1 t2)
                         \<lparr>dest := fst (createDestination E device'), clt := Some c2, ctx := ctx2\<rparr>),
              targets := AList.update ?key t2 (targets w1)\<rparr>"
    by simp_all
  have held: "clt (heap w1 t2) = (if t2 = t1 then Some c1 else clt (heap w t2))"
    by (simp add: w1)
  have c: "calls w2 =
           calls w @ (case clt (heap w t1) of None \<Rightarrow> [] | Some old \<Rightarrow> [CloseCall old])
             @ (case (if t2 = t1 then Some c1 else clt (heap w t2)) of
                  None \<Rightarrow> [] | Some old \<Rightarrow> [CloseCall old])"
    unfolding held [symmetric] by (simp add: w2 w1)
  have m: "map_of (targets w2) ?key = Some t2"
    by (simp add: w2 update_conv')
  have d: "distinct (map fst (targets w)) \<longrightarrow> distinct (map fst (targets w2))"
    by (simp add: w2 w1 distinct_update)
  have h: "clt (heap w2 t2) = Some c2"
    by (simp add: w2)
  from r1 r2 c m d h assms(5) show ?thesis
    by (auto simp: GetTarget_def Client_def)
qed

theorem ConnectTarget_twice_witness:
  "GnmiClientFactory factory1 0 (fst (createDestination ext0 device1)) = (Some (GnmiClient 1), None) \<and>
   GnmiClientFactory factory2 0 (fst (createDestination ext0 device1)) = (Some (GnmiClient 2), None) \<and>
   GnmiClient 1 \<noteq> GnmiClient 2 \<and>
   distinct (map fst (targets world0)) \<and>
   calls (snd (ConnectTarget factory2 ext0 connected1 0 0 device1)) = [CloseCall (GnmiClient 1)] \<and>
   map_of (targets (snd (ConnectTarget factory2 ext0 connected1 0 0 device1)))
     ''localhost:10161:1.0.0'' = Some 0 \<and>
   distinct (map fst (targets (snd (ConnectTarget factory2 ext0 connected1 0 0 device1)))) \<and>
   clt (heap (snd (ConnectTarget factory2 ext0 connected1 0 0 device1)) 0) = Some (GnmiClient 2) \<and>
   fst (GetTarget (snd (ConnectTarget factory2 ext0 connected1 0 0 device1))
          ''localhost:10161:1.0.0'') = (Some 0, None) \<and>
   calls (snd (ConnectTarget factory2 ext0 connected1 1 0 device1)) = [] \<and>
   map_of (targets (snd (ConnectTarget factory2 ext0 connected1 1 0 device1)))
     ''localhost:10161:1.0.0'' = Some 1 \<and>
   clt (heap (snd (ConnectTarget factory2 ext0 connected1 1 0 device1)) 1) = Some (GnmiClient 2)"
proof -
  have h1: "GnmiClientFactory factory1 0 (fst (createDestination ext0 device1)) = (Some (GnmiClient 1), None)"
    by (simp add: factory1_def)
  have h2: "GnmiClientFactory factory2 0 (fst (createDestination ext0 device1)) = (Some (GnmiClient 2), None)"
    by (simp add: factory2_def)
  have h3: "GnmiClient 1 \<noteq> GnmiClient 2" by simp
  have h4: "ConnectTarget factory1 ext0 world0 0 0 device1 =
              (fst (ConnectTarget factory1 ext0 world0 0 0 device1), connected1)"
    by (simp add: connected1_def)
  have h5: "ConnectTarget factory2 ext0 connected1 t 0 device1 =
              (fst (ConnectTarget factory2 ext0 connected1 t 0 device1),
               snd (ConnectTarget factory2 ext0 connected1 t 0 device1))" for t
    by simp
  have k: "NewVersionedID ext0 (ID device1) (Version device1) = ''localhost:10161:1.0.0''"
    by (simp add: ext0_def device1_def)
  have c0: "calls world0 = []" "clt (heap world0 0) = None" "clt (heap world0 1) = None"
    "distinct (map fst (targets world0))"
    by (simp_all add: world0_def zeroTarget_def)
  from ConnectTarget_twice [OF refl refl h1 h2 h3 h4 h5 [of 0]]
    ConnectTarget_twice [OF refl refl h1 h2 h3 h4 h5 [of 1]]
    h1 h2 h3 k c0
  show ?thesis by simp
qed

text \<open>
  Claim C3 as stated fails, since \<^verbatim>\<open>ConnectTarget\<close> closes the client of the target it
  is called on, not the client of the target registered under the key: two connects for
  the device of the tests, made on two targets (as the tests do, each on a new
  \<^verbatim>\<open>Target{}\<close>), both succeed, and no client is closed; the registry then maps the key to
  the second target.
\<close>

theorem ConnectTarget_twice_counterexample:
  "fst (ConnectTarget factory1 ext0 world0 0 0 device1) = (''localhost:10161:1.0.0'', None) \<and>
   fst (ConnectTarget factory2 ext0 (snd (ConnectTarget factory1 ext0 world0 0 0 device1)) 1 0 device1)
     = (''localhost:10161:1.0.0'', None) \<and>
   calls (snd (ConnectTarget factory2 ext0 (snd (ConnectTarget factory1 ext0 world0 0 0 device1)) 1 0 device1))
     = [] \<and>
   map_of (targets (snd (ConnectTarget factory2 ext0
       (snd (ConnectTarget factory1 ext0 world0 0 0 device1)) 1 0 device1)))
     ''localhost:10161:1.0.0'' = Some 1"
  by code_simp

text \<open>
  Claim C8, as amended. For a key that is not in the registry, \<^verbatim>\<open>GetTarget\<close> returns no
  target and an error, and leaves the world as it is; the text of the error lists the keys
  of the registry, in the order of the iteration, so that every key of the registry occurs
  in it. The error is the untyped value of \<^verbatim>\<open>fmt.Errorf\<close>, not a typed NotFound error.
\<close>

theorem GetTarget_miss:
  assumes "map_of (targets w) key = None"
  shows "GetTarget w key =
           ((None, Some (Errorf (''gNMI client for '' @ key @ '' does not exist. Known clients: ''
                                 @ formatSlice (map fst (targets w))))), w) \<and>
         \<not> IsNotFound (Errorf (''gNMI client for '' @ key @ '' does not exist. Known clients: ''
                                 @ formatSlice (map fst (targets w)))) \<and>
         (\<forall>k \<in> dom (map_of (targets w)).
            sublist k (''gNMI client for '' @ key @ '' does not exist. Known clients: ''
                       @ formatSlice (map fst (targets w))))"
proof -
  have "sublist k (''gNMI client for '' @ key @ '' does not exist. Known clients: ''
                       @ formatSlice (map fst (targets w)))" if "k \<in> dom (map_of (targets w))" for k
  proof -
    from that have "k \<in> set (map fst (targets w))" by (simp add: dom_map_of_conv_image_fst)
    then have "sublist k (formatSlice (map fst (targets w)))" by (rule sublist_formatSlice)
    then have "sublist k ((''gNMI client for '' @ key @ '' does not exist. Known clients: '')
                       @ formatSlice (map fst (targets w)))" by (rule sublist_append_right)
    then show ?thesis by simp
  qed
  with assms show ?thesis by (simp add: GetTarget_def rangeTargets_eq)
qed

theorem GetTarget_miss_witness:
  "map_of (targets world0) ''no such target'' = None \<and>
   GetTarget world0 ''no such target'' =
     ((None, Some (Errorf ''gNMI client for no such target does not exist. Known clients: []'')),
      world0) \<and>
   map_of (targets registered1) ''no such target'' = None \<and>
   ''device-2:1.0.0'' \<in> dom (map_of (targets registered1)) \<and>
   GetTarget registered1 ''no such target'' =
     ((None, Some (Errorf
        ''gNMI client for no such target does not exist. Known clients: [device-2:1.0.0]'')),
      registered1) \<and>
   sublist ''device-2:1.0.0''
     ''gNMI client for no such target does not exist. Known clients: [device-2:1.0.0]''"
proof -
  have h1: "map_of (targets world0) ''no such target'' = None" by (simp add: world0_def)
  have t0: "map fst (targets world0) = []" by (simp add: world0_def)
  have h3: "map_of (targets registered1) ''no such target'' = None"
    by (simp add: registered1_def NewTargetItem_def world0_def)
  have t1: "map fst (targets registered1) = [''device-2:1.0.0'']"
    by (simp add: registered1_def NewTargetItem_def world0_def)
  have k: "''device-2:1.0.0'' \<in> dom (map_of (targets registered1))"
    by (simp add: registered1_def NewTargetItem_def world0_def)
  from GetTarget_miss [OF h1] GetTarget_miss [OF h3] k h1 h3
  show ?thesis unfolding t0 t1 by (simp add: formatSlice_def)
qed

text \<open>
  Claim C8 as stated fails in the type of the error: a lookup in the empty registry
  returns an error on which the test for a NotFound error is false.
\<close>

theorem GetTarget_miss_counterexample:
  "fst (GetTarget world0 ''no such target'') =
     (None, Some (Errorf ''gNMI client for no such target does not exist. Known clients: []'')) \<and>
   \<not> IsNotFound (Errorf ''gNMI client for no such target does not exist. Known clients: []'')"
  by code_simp

section \<open>The session\<close>

text \<open>
  Claim C4, as amended. \<^verbatim>\<open>GetWithString\<close> and \<^verbatim>\<open>SetWithString\<close> answer the empty
  string with the Invalid error "cannot get an empty request" and "cannot set an empty
  request", and make no call on the client: the world is unchanged.
  \<^verbatim>\<open>CapabilitiesWithString\<close> has no test for the empty string: it hands the string to the
  text parser, returns the parser's error if there is one, and otherwise calls
  \<^verbatim>\<open>Capabilities\<close> with the parsed request.
\<close>

theorem WithString_empty_request:
  "GetWithString E N w target ctx' [] =
     (Return (None, Some (NewInvalid ''cannot get an empty request'')), w) \<and>
   SetWithString E N w target ctx' [] =
     (Return (None, Some (NewInvalid ''cannot set an empty request'')), w) \<and>
   CapabilitiesWithString E N w target ctx' [] =
     (case UnmarshalText E CapabilityRequest [] of
        (r, Some e) \<Rightarrow>
          (Return (None, Some (Errorf (''unable to parse gnmi.CapabilityRequest from ''
             @ Quote E [] @ '' : '' @ Error e))), w)
      | (r, None) \<Rightarrow> Capabilities E N w target ctx' r)"
  by (simp add: GetWithString_def SetWithString_def CapabilitiesWithString_def split: prod.splits)

text \<open>
  Claim C4 as stated fails for \<^verbatim>\<open>CapabilitiesWithString\<close>: with a text parser that reads
  the empty string as the request with no field set, as the test
  \<^verbatim>\<open>Test_CapabilitiesWithString\<close> expects, the call on a connected target returns the
  response of the device with no error, and the capabilities call has been made on the
  client of the target.
\<close>

theorem CapabilitiesWithString_empty_counterexample:
  "fst (CapabilitiesWithString ext0 net0 connected1 0 0 []) =
     Return (Some (Proto ''gNMI_version: 1.0''), None) \<and>
   calls connected1 = [] \<and>
   calls (snd (CapabilitiesWithString ext0 net0 connected1 0 0 [])) =
     [CapabilitiesCall (GnmiClient 1) 0 (Proto [])]"
  by code_simp

text \<open>
  Claim C5 fails on the code: on the zero target, which holds no client, \<^verbatim>\<open>Close\<close>
  panics.
\<close>

theorem Close_zero_target_panics:
  "clt (heap world0 0) = None \<and> fst (Close net0 world0 0) = Panic"
  by code_simp

text \<open>
  Claim C9. \<^verbatim>\<open>Subscribe\<close> leaves every target and the registry as they are; the only
  call it adds is the subscription on the client the base factory constructs for it,
  carrying the connection fields of the destination of the target (and no client is
  constructed and no call made when the query cannot be built); its result and its calls
  are the same whatever client the target holds. The client is new and serves that one
  subscription: where no two subscriptions so far were made on one client, and each on a
  client of the factory, no earlier subscription was made on the client of this call, and
  the same holds again after the call.
\<close>

theorem Subscribe_leaves_session:
  "heap (snd (Subscribe E N w target ctx' request handler)) = heap w \<and>
   targets (snd (Subscribe E N w target ctx' request handler)) = targets w \<and>
   calls (snd (Subscribe E N w target ctx' request handler)) =
     (case NewQuery E request of
        (q0, Some e) \<Rightarrow> calls w
      | (q0, None) \<Rightarrow>
          calls w @ [SubscribeCall (BaseClient (baseClients w)) ctx'
            (q0\<lparr>qAddrs := dAddrs (dest (heap w target)),
                qTimeout := dTimeout (dest (heap w target)),
                qTarget := dTarget (dest (heap w target)),
                qCredentials := dCredentials (dest (heap w target)),
                qTLS := dTLS (dest (heap w target)),
                qProtoHandler := handler\<rparr>) ''gnmi'']) \<and>
   baseClients (snd (Subscribe E N w target ctx' request handler)) =
     (case NewQuery E request of
        (q0, Some e) \<Rightarrow> baseClients w
      | (q0, None) \<Rightarrow> Suc (baseClients w)) \<and>
   fst (Subscribe E N (w\<lparr>heap := (heap w)(target := (heap w target)\<lparr>clt := c\<rparr>)\<rparr>)
          target ctx' request handler) =
     fst (Subscribe E N w target ctx' request handler) \<and>
   calls (snd (Subscribe E N (w\<lparr>heap := (heap w)(target := (heap w target)\<lparr>clt := c\<rparr>)\<rparr>)
          target ctx' request handler)) =
     calls (snd (Subscribe E N w target ctx' request handler)) \<and>
   (dedicated w \<longrightarrow>
      BaseClient (baseClients w) \<notin> set (subscribers (calls w)) \<and>
      dedicated (snd (Subscribe E N w target ctx' request handler)))"
proof -
  have frame:
    "heap (snd (Subscribe E N w target ctx' request handler)) = heap w \<and>
     targets (snd (Subscribe E N w target ctx' request handler)) = targets w \<and>
     calls (snd (Subscribe E N w target ctx' request handler)) =
       (case NewQuery E request of
          (q0, Some e) \<Rightarrow> calls w
        | (q0, None) \<Rightarrow>
            calls w @ [SubscribeCall (BaseClient (baseClients w)) ctx'
              (q0\<lparr>qAddrs := dAddrs (dest (heap w target)),
                  qTimeout := dTimeout (dest (heap w target)),
                  qTarget := dTarget (dest (heap w target)),
                  qCredentials := dCredentials (dest (heap w target)),
                  qTLS := dTLS (dest (heap w target)),
                  qProtoHandler := handler\<rparr>) ''gnmi'']) \<and>
     baseClients (snd (Subscribe E N w target ctx' request handler)) =
       (case NewQuery E request of
          (q0, Some e) \<Rightarrow> baseClients w
        | (q0, None) \<Rightarrow> Suc (baseClients w))"
    by (simp add: Subscribe_def GnmiBaseClientFactory_def getDestination_def Let_def
             split: prod.splits option.splits)
  have indep:
    "fst (Subscribe E N (w\<lparr>heap := (heap w)(target := (heap w target)\<lparr>clt := c\<rparr>)\<rparr>)
          target ctx' request handler) =
       fst (Subscribe E N w target ctx' request handler) \<and>
     calls (snd (Subscribe E N (w\<lparr>heap := (heap w)(target := (heap w target)\<lparr>clt := c\<rparr>)\<rparr>)
          target ctx' request handler)) =
       calls (snd (Subscribe E N w target ctx' request handler))"
    by (simp add: Subscribe_def GnmiBaseClientFactory_def getDestination_def Let_def
             split: prod.splits option.splits)
  have fresh: "dedicated w \<longrightarrow>
      BaseClient (baseClients w) \<notin> set (subscribers (calls w)) \<and>
      dedicated (snd (Subscribe E N w target ctx' request handler))"
    using dedicated_Subscribe by blast
  show ?thesis
    by (rule conjI frame [THEN conjunct1] frame [THEN conjunct2, THEN conjunct1]
          frame [THEN conjunct2, THEN conjunct2, THEN conjunct1]
          frame [THEN conjunct2, THEN conjunct2, THEN conjunct2]
          indep [THEN conjunct1] indep [THEN conjunct2] fresh)+
qed

theorem Subscribe_leaves_session_witness:
  "dedicated connected1 \<and>
   BaseClient (baseClients connected1) \<notin> set (subscribers (calls connected1)) \<and>
   dedicated (snd (Subscribe ext0 net0 connected1 0 0 request1 None)) \<and>
   BaseClient (baseClients (snd (Subscribe ext0 net0 connected1 0 0 request1 None)))
     \<notin> set (subscribers (calls (snd (Subscribe ext0 net0 connected1 0 0 request1 None)))) \<and>
   subscribers (calls (snd (Subscribe ext0 net0
       (snd (Subscribe ext0 net0 connected1 0 0 request1 None)) 0 0 request1 None))) =
     [BaseClient 0, BaseClient 1]"
proof -
  have d: "dedicated connected1" by code_simp
  note s1 = Subscribe_leaves_session [of ext0 net0 connected1 0 0 request1 None None,
    THEN conjunct2, THEN conjunct2, THEN conjunct2, THEN conjunct2, THEN conjunct2, THEN conjunct2,
    THEN mp, OF d]
  note a = s1 [THEN conjunct1]
  note b = s1 [THEN conjunct2]
  note s2 = Subscribe_leaves_session
    [of ext0 net0 "snd (Subscribe ext0 net0 connected1 0 0 request1 None)" 0 0 request1 None None,
    THEN conjunct2, THEN conjunct2, THEN conjunct2, THEN conjunct2, THEN conjunct2, THEN conjunct2,
    THEN mp, OF b]
  note c = s2 [THEN conjunct1]
  have e: "subscribers (calls (snd (Subscribe ext0 net0
       (snd (Subscribe ext0 net0 connected1 0 0 request1 None)) 0 0 request1 None))) =
     [BaseClient 0, BaseClient 1]"
    by code_simp
  show ?thesis by (rule conjI d a b c e)+
qed

section \<open>The request builder\<close>

text \<open>
  Claim C6, as amended. For every options value the mode resolves exactly when its
  upper-casing by \<^verbatim>\<open>strings.ToUpper\<close> is ONCE, POLL or STREAM, to the mode of that name, or
  is empty, to STREAM; so the empty string and every mix of cases of a name resolve, for a
  string of ASCII bytes nothing else does, and a string with other bytes resolves as its
  Unicode upper-casing says. The same holds for the stream mode with ON_CHANGE, SAMPLE and
  TARGET_DEFINED, the empty string being TARGET_DEFINED. A mode that does not resolve makes
  \<^verbatim>\<open>NewSubscribeRequest\<close> return no request and the untyped error of \<^verbatim>\<open>fmt.Errorf\<close>,
  which is not a typed Invalid error, with the mode string in its text; so does a stream
  mode that does not resolve, with the stream mode string. When both resolve, the result is
  either a request with the resolved mode, one subscription for each path and the resolved
  stream mode in each, or no request and the error of the prefix or of a path that did not
  parse.
\<close>

theorem NewSubscribeRequest_modes:
  "(\<forall>mode. switchMode (ToUpper E (Mode subscribeOptions)) = Some mode \<longleftrightarrow>
       ToUpper E (Mode subscribeOptions) = SubscriptionList_Mode_String mode \<or>
       (ToUpper E (Mode subscribeOptions) = [] \<and> mode = SubscriptionList_STREAM)) \<and>
   (\<forall>mode. spec_resolveMode (Mode subscribeOptions) = Some mode \<longrightarrow>
       switchMode (ToUpper E (Mode subscribeOptions)) = Some mode) \<and>
   (isASCII (Mode subscribeOptions) \<longrightarrow>
       switchMode (ToUpper E (Mode subscribeOptions)) = spec_resolveMode (Mode subscribeOptions)) \<and>
   (\<forall>streamMode. switchStreamMode (ToUpper E (StreamMode subscribeOptions)) = Some streamMode \<longleftrightarrow>
       ToUpper E (StreamMode subscribeOptions) = SubscriptionMode_String streamMode \<or>
       (ToUpper E (StreamMode subscribeOptions) = [] \<and>
        streamMode = SubscriptionMode_TARGET_DEFINED)) \<and>
   (\<forall>streamMode. spec_resolveStreamMode (StreamMode subscribeOptions) = Some streamMode \<longrightarrow>
       switchStreamMode (ToUpper E (StreamMode subscribeOptions)) = Some streamMode) \<and>
   (isASCII (StreamMode subscribeOptions) \<longrightarrow>
       switchStreamMode (ToUpper E (StreamMode subscribeOptions)) =
         spec_resolveStreamMode (StreamMode subscribeOptions)) \<and>
   (switchMode (ToUpper E (Mode subscribeOptions)) = None \<longrightarrow>
       NewSubscribeRequest E subscribeOptions =
         (None, Some (Errorf (''subscribe mode ('' @ Mode subscribeOptions @ '') invalid''))) \<and>
       \<not> IsInvalid (Errorf (''subscribe mode ('' @ Mode subscribeOptions @ '') invalid'')) \<and>
       sublist (Mode subscribeOptions) (''subscribe mode ('' @ Mode subscribeOptions @ '') invalid'')) \<and>
   (switchMode (ToUpper E (Mode subscribeOptions)) \<noteq> None \<and>
    switchStreamMode (ToUpper E (StreamMode subscribeOptions)) = None \<longrightarrow>
       NewSubscribeRequest E subscribeOptions =
         (None, Some (Errorf (''subscribe stream mode ('' @ StreamMode subscribeOptions
                              @ '') invalid''))) \<and>
       \<not> IsInvalid (Errorf (''subscribe stream mode ('' @ StreamMode subscribeOptions
                              @ '') invalid'')) \<and>
       sublist (StreamMode subscribeOptions)
         (''subscribe stream mode ('' @ StreamMode subscribeOptions @ '') invalid'')) \<and>
   (\<forall>mode streamMode.
       switchMode (ToUpper E (Mode subscribeOptions)) = Some mode \<and>
       switchStreamMode (ToUpper E (StreamMode subscribeOptions)) = Some streamMode \<longrightarrow>
       (\<exists>l. NewSubscribeRequest E subscribeOptions = (Some (SubscribeRequest_Subscribe l), None) \<and>
            lMode l = mode \<and>
            length (lSubscription l) = length (Paths subscribeOptions) \<and>
            (\<forall>s \<in> set (lSubscription l). map_option sMode s = Some streamMode)) \<or>
       (\<exists>err. NewSubscribeRequest E subscribeOptions = (None, Some err) \<and>
            (ParseGNMIElements E (SplitPath E (Prefix subscribeOptions)) = Inl err \<or>
             (\<exists>p \<in> set (Paths subscribeOptions). ParseGNMIElements E p = Inl err))))"
proof -
  have a0: "\<forall>mode. switchMode (ToUpper E (Mode subscribeOptions)) = Some mode \<longleftrightarrow>
       ToUpper E (Mode subscribeOptions) = SubscriptionList_Mode_String mode \<or>
       (ToUpper E (Mode subscribeOptions) = [] \<and> mode = SubscriptionList_STREAM)"
    by (simp add: switchMode_iff)
  have a: "\<forall>mode. spec_resolveMode (Mode subscribeOptions) = Some mode \<longrightarrow>
       switchMode (ToUpper E (Mode subscribeOptions)) = Some mode"
    by (simp add: switchMode_spec)
  have b: "isASCII (Mode subscribeOptions) \<longrightarrow>
       switchMode (ToUpper E (Mode subscribeOptions)) = spec_resolveMode (Mode subscribeOptions)"
    by (simp add: switchMode_ascii)
  have c0: "\<forall>streamMode. switchStreamMode (ToUpper E (StreamMode subscribeOptions)) = Some streamMode \<longleftrightarrow>
       ToUpper E (StreamMode subscribeOptions) = SubscriptionMode_String streamMode \<or>
       (ToUpper E (StreamMode subscribeOptions) = [] \<and>
        streamMode = SubscriptionMode_TARGET_DEFINED)"
    by (simp add: switchStreamMode_iff)
  have c: "\<forall>streamMode. spec_resolveStreamMode (StreamMode subscribeOptions) = Some streamMode \<longrightarrow>
       switchStreamMode (ToUpper E (StreamMode subscribeOptions)) = Some streamMode"
    by (simp add: switchStreamMode_spec)
  have d: "isASCII (StreamMode subscribeOptions) \<longrightarrow>
       switchStreamMode (ToUpper E (StreamMode subscribeOptions)) =
         spec_resolveStreamMode (StreamMode subscribeOptions)"
    by (simp add: switchStreamMode_ascii)
  have e: "switchMode (ToUpper E (Mode subscribeOptions)) = None \<longrightarrow>
       NewSubscribeRequest E subscribeOptions =
         (None, Some (Errorf (''subscribe mode ('' @ Mode subscribeOptions @ '') invalid''))) \<and>
       \<not> IsInvalid (Errorf (''subscribe mode ('' @ Mode subscribeOptions @ '') invalid'')) \<and>
       sublist (Mode subscribeOptions) (''subscribe mode ('' @ Mode subscribeOptions @ '') invalid'')"
    using sublist_appendI [of "Mode subscribeOptions" "''subscribe mode (''" "'') invalid''"]
    by (simp add: NewSubscribeRequest_def del: sublist_appendI)
  have f: "switchMode (ToUpper E (Mode subscribeOptions)) \<noteq> None \<and>
    switchStreamMode (ToUpper E (StreamMode subscribeOptions)) = None \<longrightarrow>
       NewSubscribeRequest E subscribeOptions =
         (None, Some (Errorf (''subscribe stream mode ('' @ StreamMode subscribeOptions
                              @ '') invalid''))) \<and>
       \<not> IsInvalid (Errorf (''subscribe stream mode ('' @ StreamMode subscribeOptions
                              @ '') invalid'')) \<and>
       sublist (StreamMode subscribeOptions)
         (''subscribe stream mode ('' @ StreamMode subscribeOptions @ '') invalid'')"
    using sublist_appendI [of "StreamMode subscribeOptions" "''subscribe stream mode (''" "'') invalid''"]
    by (auto simp: NewSubscribeRequest_def simp del: sublist_appendI)
  have g: "\<forall>mode streamMode.
       switchMode (ToUpper E (Mode subscribeOptions)) = Some mode \<and>
       switchStreamMode (ToUpper E (StreamMode subscribeOptions)) = Some streamMode \<longrightarrow>
       (\<exists>l. NewSubscribeRequest E subscribeOptions = (Some (SubscribeRequest_Subscribe l), None) \<and>
            lMode l = mode \<and>
            length (lSubscription l) = length (Paths subscribeOptions) \<and>
            (\<forall>s \<in> set (lSubscription l). map_option sMode s = Some streamMode)) \<or>
       (\<exists>err. NewSubscribeRequest E subscribeOptions = (None, Some err) \<and>
            (ParseGNMIElements E (SplitPath E (Prefix subscribeOptions)) = Inl err \<or>
             (\<exists>p \<in> set (Paths subscribeOptions). ParseGNMIElements E p = Inl err)))"
    using NewSubscribeRequest_resolved by blast
  show ?thesis by (rule conjI a0 a b c0 c d e f g)+
qed

theorem NewSubscribeRequest_modes_witness:
  "spec_resolveMode (Mode options1) = Some SubscriptionList_STREAM \<and>
   switchMode (ToUpper ext0 (Mode options1)) = Some SubscriptionList_STREAM \<and>
   spec_resolveStreamMode (StreamMode options1) = Some SubscriptionMode_TARGET_DEFINED \<and>
   switchStreamMode (ToUpper ext0 (StreamMode options1)) = Some SubscriptionMode_TARGET_DEFINED \<and>
   (\<exists>l. NewSubscribeRequest ext0 options1 = (Some (SubscribeRequest_Subscribe l), None) \<and>
        lMode l = SubscriptionList_STREAM \<and>
        length (lSubscription l) = length (Paths options1) \<and>
        (\<forall>s \<in> set (lSubscription l). map_option sMode s = Some SubscriptionMode_TARGET_DEFINED)) \<and>
   isASCII (Mode optionsBadMode) \<and>
   switchMode (ToUpper ext0 (Mode optionsBadMode)) = None \<and>
   NewSubscribeRequest ext0 optionsBadMode = (None, Some (Errorf ''subscribe mode (bogus) invalid'')) \<and>
   sublist ''bogus'' ''subscribe mode (bogus) invalid'' \<and>
   isASCII (StreamMode optionsBadStreamMode) \<and>
   switchStreamMode (ToUpper ext0 (StreamMode optionsBadStreamMode)) = None \<and>
   NewSubscribeRequest ext0 optionsBadStreamMode =
     (None, Some (Errorf ''subscribe stream mode (sometimes) invalid'')) \<and>
   sublist ''sometimes'' ''subscribe stream mode (sometimes) invalid'' \<and>
   \<not> isASCII (Mode optionsLongS) \<and>
   ToUpper extUnicode (Mode optionsLongS) = ''STREAM'' \<and>
   switchMode (ToUpper extUnicode (Mode optionsLongS)) = Some SubscriptionList_STREAM"
proof -
  have m1: "spec_resolveMode (Mode options1) = Some SubscriptionList_STREAM" by code_simp
  have s1: "spec_resolveStreamMode (StreamMode options1) = Some SubscriptionMode_TARGET_DEFINED"
    by code_simp
  have a1: "isASCII (Mode optionsBadMode)" by code_simp
  have n1: "spec_resolveMode (Mode optionsBadMode) = None" by code_simp
  have a2: "isASCII (StreamMode optionsBadStreamMode)" by code_simp
  have n2: "spec_resolveStreamMode (StreamMode optionsBadStreamMode) = None" by code_simp
  have m2: "spec_resolveMode (Mode optionsBadStreamMode) = Some SubscriptionList_STREAM" by code_simp
  have mb: "Mode optionsBadMode = ''bogus''" by code_simp
  have sb: "StreamMode optionsBadStreamMode = ''sometimes''" by code_simp
  have u1: "\<not> isASCII (Mode optionsLongS)" by code_simp
  have u2: "ToUpper extUnicode (Mode optionsLongS) = ''STREAM''" by code_simp
  have p1: "ParseGNMIElements ext0 (SplitPath ext0 (Prefix options1)) =
              Inr \<lparr>pOrigin = [], pElem = [], pTarget = []\<rparr>" by code_simp
  have p2: "Paths options1 = [[''a'', ''b'', ''c'']]" by (simp add: options1_def)
  have p3: "ParseGNMIElements ext0 [''a'', ''b'', ''c''] =
              Inr \<lparr>pOrigin = [], pElem = [PathElem ''a'' [], PathElem ''b'' [], PathElem ''c'' []],
                   pTarget = []\<rparr>" by code_simp
  note t1 = NewSubscribeRequest_modes [of ext0 options1]
  note t2 = NewSubscribeRequest_modes [of ext0 optionsBadMode]
  note t3 = NewSubscribeRequest_modes [of ext0 optionsBadStreamMode]
  note t4 = NewSubscribeRequest_modes [of extUnicode optionsLongS]
  note t1_spec = t1 [THEN conjunct2, THEN conjunct1, rule_format]
  note t1_stream = t1 [THEN conjunct2, THEN conjunct2, THEN conjunct2, THEN conjunct2,
    THEN conjunct1, rule_format]
  note t1_built = t1 [THEN conjunct2, THEN conjunct2, THEN conjunct2, THEN conjunct2,
    THEN conjunct2, THEN conjunct2, THEN conjunct2, THEN conjunct2, THEN spec, THEN spec, THEN mp]
  note t2_ascii = t2 [THEN conjunct2, THEN conjunct2, THEN conjunct1, THEN mp]
  note t2_error = t2 [THEN conjunct2, THEN conjunct2, THEN conjunct2, THEN conjunct2,
    THEN conjunct2, THEN conjunct2, THEN conjunct1, THEN mp]
  note t3_spec = t3 [THEN conjunct2, THEN conjunct1, rule_format]
  note t3_ascii = t3 [THEN conjunct2, THEN conjunct2, THEN conjunct2, THEN conjunct2,
    THEN conjunct2, THEN conjunct1, THEN mp]
  note t3_error = t3 [THEN conjunct2, THEN conjunct2, THEN conjunct2, THEN conjunct2,
    THEN conjunct2, THEN conjunct2, THEN conjunct2, THEN conjunct1, THEN mp]
  note t4_iff = t4 [THEN conjunct1, THEN spec]
  have r1: "switchMode (ToUpper ext0 (Mode options1)) = Some SubscriptionList_STREAM"
    using m1 by (rule t1_spec)
  have r2: "switchStreamMode (ToUpper ext0 (StreamMode options1)) = Some SubscriptionMode_TARGET_DEFINED"
    using s1 by (rule t1_stream)
  have dich:
    "(\<exists>l. NewSubscribeRequest ext0 options1 = (Some (SubscribeRequest_Subscribe l), None) \<and>
          lMode l = SubscriptionList_STREAM \<and>
          length (lSubscription l) = length (Paths options1) \<and>
          (\<forall>s \<in> set (lSubscription l). map_option sMode s = Some SubscriptionMode_TARGET_DEFINED)) \<or>
     (\<exists>err. NewSubscribeRequest ext0 options1 = (None, Some err) \<and>
          (ParseGNMIElements ext0 (SplitPath ext0 (Prefix options1)) = Inl err \<or>
           (\<exists>p \<in> set (Paths options1). ParseGNMIElements ext0 p = Inl err)))"
    by (rule t1_built) (rule conjI [OF r1 r2])
  have nofail:
    "\<not> (\<exists>err. NewSubscribeRequest ext0 options1 = (None, Some err) \<and>
          (ParseGNMIElements ext0 (SplitPath ext0 (Prefix options1)) = Inl err \<or>
           (\<exists>p \<in> set (Paths options1). ParseGNMIElements ext0 p = Inl err)))"
    by (simp add: p1 p2 p3)
  have r0:
    "\<exists>l. NewSubscribeRequest ext0 options1 = (Some (SubscribeRequest_Subscribe l), None) \<and>
        lMode l = SubscriptionList_STREAM \<and>
        length (lSubscription l) = length (Paths options1) \<and>
        (\<forall>s \<in> set (lSubscription l). map_option sMode s = Some SubscriptionMode_TARGET_DEFINED)"
  proof (rule disjE [OF dich])
    assume "\<exists>l. NewSubscribeRequest ext0 options1 = (Some (SubscribeRequest_Subscribe l), None) \<and>
        lMode l = SubscriptionList_STREAM \<and>
        length (lSubscription l) = length (Paths options1) \<and>
        (\<forall>s \<in> set (lSubscription l). map_option sMode s = Some SubscriptionMode_TARGET_DEFINED)"
    then show ?thesis .
  next
    assume "\<exists>err. NewSubscribeRequest ext0 options1 = (None, Some err) \<and>
          (ParseGNMIElements ext0 (SplitPath ext0 (Prefix options1)) = Inl err \<or>
           (\<exists>p \<in> set (Paths options1). ParseGNMIElements ext0 p = Inl err))"
    with nofail show ?thesis by (rule notE)
  qed
  have r3: "switchMode (ToUpper ext0 (Mode optionsBadMode)) = None"
    using t2_ascii [OF a1] n1 by simp
  have r4: "NewSubscribeRequest ext0 optionsBadMode =
      (None, Some (Errorf (''subscribe mode ('' @ Mode optionsBadMode @ '') invalid''))) \<and>
      \<not> IsInvalid (Errorf (''subscribe mode ('' @ Mode optionsBadMode @ '') invalid'')) \<and>
      sublist (Mode optionsBadMode) (''subscribe mode ('' @ Mode optionsBadMode @ '') invalid'')"
    using r3 by (rule t2_error)
  have r4a: "NewSubscribeRequest ext0 optionsBadMode =
      (None, Some (Errorf ''subscribe mode (bogus) invalid''))"
    using r4 [THEN conjunct1] unfolding mb by simp
  have r4b: "sublist ''bogus'' ''subscribe mode (bogus) invalid''"
    using r4 [THEN conjunct2, THEN conjunct2] unfolding mb by simp
  have r5: "switchStreamMode (ToUpper ext0 (StreamMode optionsBadStreamMode)) = None"
    using t3_ascii [OF a2] n2 by simp
  have r6: "switchMode (ToUpper ext0 (Mode optionsBadStreamMode)) \<noteq> None"
    using t3_spec [OF m2] by simp
  have r7: "NewSubscribeRequest ext0 optionsBadStreamMode =
      (None, Some (Errorf (''subscribe stream mode ('' @ StreamMode optionsBadStreamMode
                              @ '') invalid''))) \<and>
      \<not> IsInvalid (Errorf (''subscribe stream mode ('' @ StreamMode optionsBadStreamMode
                              @ '') invalid'')) \<and>
      sublist (StreamMode optionsBadStreamMode)
         (''subscribe stream mode ('' @ StreamMode optionsBadStreamMode @ '') invalid'')"
    by (rule t3_error) (rule conjI [OF r6 r5])
  have r7a: "NewSubscribeRequest ext0 optionsBadStreamMode =
     (None, Some (Errorf ''subscribe stream mode (sometimes) invalid''))"
    using r7 [THEN conjunct1] unfolding sb by simp
  have r7b: "sublist ''sometimes'' ''subscribe stream mode (sometimes) invalid''"
    using r7 [THEN conjunct2, THEN conjunct2] unfolding sb by simp
  have r8: "switchMode (ToUpper extUnicode (Mode optionsLongS)) = Some SubscriptionList_STREAM"
    using t4_iff [of SubscriptionList_STREAM] u2 by simp
  show ?thesis
    by (rule conjI m1 r1 s1 r2 r0 a1 r3 r4a r4b a2 r5 r7a r7b u1 u2 r8)+
qed

text \<open>
  Claim C6 as stated fails in the type of the error: for a mode that is no name the
  builder returns an error on which the test for an Invalid error is false.
\<close>

theorem NewSubscribeRequest_modes_counterexample:
  "NewSubscribeRequest ext0 optionsBadMode =
     (None, Some (Errorf ''subscribe mode (bogus) invalid'')) \<and>
   \<not> IsInvalid (Errorf ''subscribe mode (bogus) invalid'')"
  by code_simp



end
